theory Spec2Isabelle
  imports Main "HOL-Library.AList" "HOL-Library.Sublist"
begin

section \<open>JSON values and the JavaScript operations the proxies apply to them\<close>

text \<open>
  A parsed JSON value. A number is carried by the text \<^verbatim>\<open>String(n)\<close> gives for it
  (no arithmetic is done on request values); an object is the list of its own
  properties. The JavaScript value \<^verbatim>\<open>undefined\<close> (an absent property) is \<open>None\<close> of
  \<open>json option\<close>.
\<close>

datatype json =
    JNull
  | JBool bool
  | JNum string
  | JStr string
  | JArr "json list"
  | JObj "(string \<times> json) list"

text \<open>Truthiness, as \<^verbatim>\<open>!x\<close>, \<^verbatim>\<open>x || d\<close> and \<^verbatim>\<open>if (x)\<close> test it.\<close>

fun truthy :: "json option \<Rightarrow> bool" where
  "truthy None = False"
| "truthy (Some JNull) = False"
| "truthy (Some (JBool b)) = b"
| "truthy (Some (JNum n)) = (n \<noteq> ''0'')"
| "truthy (Some (JStr s)) = (s \<noteq> [])"
| "truthy (Some (JArr xs)) = True"
| "truthy (Some (JObj kvs)) = True"

text \<open>\<^verbatim>\<open>x || d\<close> for a default \<open>d\<close> that is a value.\<close>

fun js_or :: "json option \<Rightarrow> json \<Rightarrow> json" where
  "js_or None d = d"
| "js_or (Some v) d = (if truthy (Some v) then v else d)"

text \<open>
  \<^verbatim>\<open>x.k\<close> on a value that is neither \<^verbatim>\<open>null\<close> nor \<^verbatim>\<open>undefined\<close>, for the property
  names the proxies read (none of them is a property of a string, a number, a
  boolean or an array).
\<close>

fun get_prop :: "json \<Rightarrow> string \<Rightarrow> json option" where
  "get_prop (JObj kvs) k = map_of kvs k"
| "get_prop v k = None"

text \<open>
  \<^verbatim>\<open>x.k\<close> on any value: reading a property of \<^verbatim>\<open>null\<close> or \<^verbatim>\<open>undefined\<close> throws a
  TypeError, whose message (the runtime's wording) is the \<open>Inl\<close>.
\<close>

definition quoted :: "string \<Rightarrow> string" where
  "quoted s = [CHR 0x27] @ s @ [CHR 0x27]"

definition type_error :: "string \<Rightarrow> string \<Rightarrow> string" where
  "type_error what k =
     ''Cannot read properties of '' @ what @ '' (reading '' @ quoted k @ '')''"

text \<open>
  \<^verbatim>\<open>const { k, ... } = x\<close> on \<^verbatim>\<open>null\<close> throws a TypeError too; \<open>k\<close> is the first
  property read and \<open>what\<close> the runtime's name for \<open>x\<close>.
\<close>

definition destructure_error :: "string \<Rightarrow> string \<Rightarrow> string" where
  "destructure_error k what =
     ''Cannot destructure property '' @ quoted k @ '' of '' @ quoted what @ '' as it is null.''"

fun read_prop :: "json option \<Rightarrow> string \<Rightarrow> string + json option" where
  "read_prop None k = Inl (type_error ''undefined'' k)"
| "read_prop (Some JNull) k = Inl (type_error ''null'' k)"
| "read_prop (Some v) k = Inr (get_prop v k)"

text \<open>Decimal digits of an index, for the keys of an array or a string.\<close>

function show_nat :: "nat \<Rightarrow> string" where
  "show_nat n =
     (if n < 10 then [char_of (48 + n)]
      else show_nat (n div 10) @ [char_of (48 + n mod 10)])"
  by pat_completeness auto
termination
  by (relation "measure id") auto

declare show_nat.simps [simp del]

text \<open>
  The own enumerable properties of a value, in order: what \<^verbatim>\<open>{...x}\<close> copies and
  \<^verbatim>\<open>Object.entries(x)\<close> lists. \<^verbatim>\<open>undefined\<close>, \<^verbatim>\<open>null\<close>, numbers and booleans have
  none; an array and a string have their indices.
\<close>

fun own_entries :: "json option \<Rightarrow> (string \<times> json) list" where
  "own_entries (Some (JObj kvs)) = kvs"
| "own_entries (Some (JArr xs)) = zip (map show_nat [0..<length xs]) xs"
| "own_entries (Some (JStr s)) = zip (map show_nat [0..<length s]) (map (\<lambda>c. JStr [c]) s)"
| "own_entries v = []"

text \<open>
  The object literal \<^verbatim>\<open>{ ...x, user_id: u }\<close>: the properties of \<open>x\<close>, with
  \<^verbatim>\<open>user_id\<close> set to \<open>u\<close> (overwritten in place when \<open>x\<close> has it, added last
  otherwise).
\<close>

definition with_user_id :: "json option \<Rightarrow> json \<Rightarrow> (string \<times> json) list" where
  "with_user_id x u = AList.update ''user_id'' u (own_entries x)"

text \<open>
  \<^verbatim>\<open>`${x}`\<close>: the string a template literal puts for a value, or \<open>Inl\<close> the message of
  the \<^verbatim>\<open>TypeError\<close> it throws. An object is converted by its \<^verbatim>\<open>toString\<close> method: the
  inherited one gives \<^verbatim>\<open>[object Object]\<close>; a parsed object with a property of its own
  named \<^verbatim>\<open>toString\<close> (a JSON value, never a function) has none to call, its \<^verbatim>\<open>valueOf\<close>
  gives no primitive either, and the conversion throws. An array joins the strings of
  its elements with commas, \<^verbatim>\<open>null\<close> elements as the empty string, from left to right.
\<close>

definition primitive_error :: string where
  "primitive_error = ''Cannot convert object to primitive value''"

fun js_string :: "json \<Rightarrow> string + string" and js_join :: "json list \<Rightarrow> string + string" where
  "js_string JNull = Inr ''null''"
| "js_string (JBool b) = Inr (if b then ''true'' else ''false'')"
| "js_string (JNum n) = Inr n"
| "js_string (JStr s) = Inr s"
| "js_string (JArr xs) = js_join xs"
| "js_string (JObj kvs) =
     (if map_of kvs ''toString'' = None then Inr ''[object Object]'' else Inl primitive_error)"
| "js_join [] = Inr []"
| "js_join (x # xs) =
     (case (if x = JNull then Inr [] else js_string x) of
        Inl m \<Rightarrow> Inl m
      | Inr s \<Rightarrow>
          (if xs = [] then Inr s
           else (case js_join xs of Inl m \<Rightarrow> Inl m | Inr r \<Rightarrow> Inr (s @ '','' @ r))))"

fun template :: "json option \<Rightarrow> string + string" where
  "template None = Inr ''undefined''"
| "template (Some v) = js_string v"

text \<open>
  A message built by a template literal with one value in it: the \<^verbatim>\<open>TypeError\<close> of the
  conversion replaces it.
\<close>

definition message_with :: "string \<Rightarrow> json option \<Rightarrow> string" where
  "message_with lead v = (case template v of Inl m \<Rightarrow> m | Inr s \<Rightarrow> lead @ s)"

text \<open>\<^verbatim>\<open>s.includes(t)\<close>: \<open>t\<close> occurs in \<open>s\<close>.\<close>

fun str_includes :: "string \<Rightarrow> string \<Rightarrow> bool" where
  "str_includes [] t = (t = [])"
| "str_includes (c # s) t = (take (length t) (c # s) = t \<or> str_includes s t)"

section \<open>The key-set caches\<close>

text \<open>
  What \<^verbatim>\<open>fetch(ROWND_JWKS_URL)\<close> does in one call: it rejects (a network error, with
  its message), or resolves to a response with its \<^verbatim>\<open>ok\<close> flag, its status text
  and what \<^verbatim>\<open>response.json()\<close> gives (\<open>Inl\<close> the message of the error it throws on
  a body that is not JSON).
\<close>

datatype http_response =
  HttpResponse (ok: bool) (statusText: string) (json_body: "string + json")

datatype fetch_outcome = Rejected string | Resolved http_response

text \<open>
  The universal proxy's module state: \<^verbatim>\<open>jwksCache\<close> (\<open>None\<close> for \<^verbatim>\<open>null\<close>) and
  \<^verbatim>\<open>jwksCacheTime\<close>. Times are milliseconds, \<open>now\<close> is \<^verbatim>\<open>Date.now()\<close>.
\<close>

record key_cache =
  jwksCache :: "json option"
  jwksCacheTime :: int

definition JWKS_CACHE_DURATION :: int where
  "JWKS_CACHE_DURATION = 3600000"

text \<open>
  What a verifier does on the way, in order: a request the proxy's own code sends to
  the key-set endpoint (\<open>FetchKeys\<close>), a call of the library's \<^verbatim>\<open>jwtVerify\<close> on a token
  (\<open>VerifyToken\<close>), and a request the library's remote key set sends to the endpoint
  during such a call (\<open>LibraryFetch\<close>).
\<close>

datatype auth_event = FetchKeys | VerifyToken string | LibraryFetch

text \<open>
  \<^verbatim>\<open>getRowndKeys\<close>: the result (\<open>Inl\<close> the message of the error thrown), the cache
  afterwards, and the requests sent to the key-set endpoint.
\<close>

definition getRowndKeys ::
  "int \<Rightarrow> fetch_outcome \<Rightarrow> key_cache \<Rightarrow> (string + json) \<times> key_cache \<times> auth_event list" where
  "getRowndKeys now net c =
     (case (if truthy (jwksCache c) \<and> now - jwksCacheTime c < JWKS_CACHE_DURATION
            then jwksCache c else None) of
        Some held \<Rightarrow> (Inr held, c, [])
      | None \<Rightarrow>
          (case net of
             Rejected m \<Rightarrow> (Inl m, c, [FetchKeys])
           | Resolved r \<Rightarrow>
               if \<not> ok r
               then (Inl (''Failed to fetch Rownd JWKS: '' @ statusText r), c, [FetchKeys])
               else (case json_body r of
                       Inl m \<Rightarrow> (Inl m, c, [FetchKeys])
                     | Inr j \<Rightarrow>
                         (Inr j, \<lparr>jwksCache = Some j, jwksCacheTime = now\<rparr>, [FetchKeys]))))"


section \<open>The token verifiers\<close>

text \<open>
  The library and platform functions the proxies call, taken as they are:
  \<^item> \<open>jwtVerifyRemote\<close>: \<^verbatim>\<open>jose.jwtVerify(token, JWKS, {issuer, audience})\<close> on a key-set
    object made by \<^verbatim>\<open>jose.createRemoteJWKSet\<close>, which reads the endpoint on its own
    and keeps what it read. The object is named by the time it was made; the call, at
    the given time, gives the payload (or \<open>Inl\<close> the message of the error thrown) and
    the number of requests the object sent to the endpoint during the call;
  \<^item> \<open>createLocalJWKSet\<close>: \<open>Some\<close> the message when the library refuses the document;
  \<^item> \<open>jwtVerifyLocal\<close>: \<^verbatim>\<open>jose.jwtVerify(token, jwks, {issuer})\<close> on a local key set;
  \<^item> \<open>atob\<close> (\<open>Inl\<close> the message when the text is not base64) with the bytes of the
    decoded string, and \<open>btoa\<close> on the bytes of a string.
\<close>

record runtime =
  jwtVerifyRemote :: "int \<Rightarrow> int \<Rightarrow> string \<Rightarrow> (string + (string \<times> json) list) \<times> nat"
  createLocalJWKSet :: "json \<Rightarrow> string option"
  jwtVerifyLocal :: "string \<Rightarrow> json \<Rightarrow> string + (string \<times> json) list"
  atob :: "string \<Rightarrow> string + nat list"
  btoa :: "nat list \<Rightarrow> string"

text \<open>\<^verbatim>\<open>payload.sub\<close> when it passes \<^verbatim>\<open>if (!payload.sub) throw\<close>.\<close>

definition subject_of :: "(string \<times> json) list \<Rightarrow> json option" where
  "subject_of payload =
     (if truthy (map_of payload ''sub'') then map_of payload ''sub'' else None)"

text \<open>What one call of \<^verbatim>\<open>jose.jwtVerify\<close> on a remote key set adds to the trace.\<close>

definition verify_events :: "string \<Rightarrow> nat \<Rightarrow> auth_event list" where
  "verify_events token n = VerifyToken token # replicate n LibraryFetch"

text \<open>
  \<^verbatim>\<open>validateRowndToken\<close> of the universal proxy: \<^verbatim>\<open>{ userId, payload }\<close>, or \<open>Inl\<close> the
  message of the error thrown; the cache afterwards; what it did on the way. The
  key-set object is made anew at each call; the keys \<^verbatim>\<open>getRowndKeys\<close> gave are not
  used.
\<close>

definition validateRowndToken ::
  "runtime \<Rightarrow> int \<Rightarrow> fetch_outcome \<Rightarrow> key_cache \<Rightarrow> string \<Rightarrow>
     (string + json \<times> (string \<times> json) list) \<times> key_cache \<times> auth_event list" where
  "validateRowndToken rt now net c token =
     (case getRowndKeys now net c of
        (Inl m, c', ev) \<Rightarrow> (Inl (''Invalid token: '' @ m), c', ev)
      | (Inr jwks, c', ev) \<Rightarrow>
          (case jwtVerifyRemote rt now now token of
             (Inl m, n) \<Rightarrow> (Inl (''Invalid token: '' @ m), c', ev @ verify_events token n)
           | (Inr payload, n) \<Rightarrow>
               (case subject_of payload of
                  None \<Rightarrow>
                    (Inl (''Invalid token: '' @ ''Token missing subject claim''), c',
                     ev @ verify_events token n)
                | Some sub \<Rightarrow> (Inr (sub, payload), c', ev @ verify_events token n))))"

text \<open>
  The edge wrapper keeps the key-set object \<^verbatim>\<open>createRemoteJWKSet\<close> made (\<open>edge_held\<close>:
  it holds one) and the time it made it; \<^verbatim>\<open>getRowndJWKS\<close> sends no request itself,
  and the token is verified on the object it gives.
\<close>

record edge_cache =
  edge_held :: bool
  edge_jwksCacheTime :: int

definition getRowndJWKS :: "int \<Rightarrow> edge_cache \<Rightarrow> edge_cache" where
  "getRowndJWKS now c =
     (if edge_held c \<and> now - edge_jwksCacheTime c < JWKS_CACHE_DURATION then c
      else \<lparr>edge_held = True, edge_jwksCacheTime = now\<rparr>)"

definition edge_validateRowndToken ::
  "runtime \<Rightarrow> int \<Rightarrow> edge_cache \<Rightarrow> string \<Rightarrow>
     (string + json \<times> (string \<times> json) list) \<times> edge_cache \<times> auth_event list" where
  "edge_validateRowndToken rt now c token =
     (let c' = getRowndJWKS now c in
      case jwtVerifyRemote rt (edge_jwksCacheTime c') now token of
        (Inl m, n) \<Rightarrow> (Inl (''Invalid token: '' @ m), c', verify_events token n)
      | (Inr payload, n) \<Rightarrow>
          (case subject_of payload of
             None \<Rightarrow>
               (Inl (''Invalid token: '' @ ''Token missing subject claim''), c',
                verify_events token n)
           | Some sub \<Rightarrow> (Inr (sub, payload), c', verify_events token n)))"

text \<open>
  The simplified handler's module state: the document the local key set was made
  from (\<open>None\<close> for \<^verbatim>\<open>null\<close>) and \<^verbatim>\<open>cacheExpiry\<close>.
\<close>

record local_cache =
  local_jwks :: "json option"
  cacheExpiry :: int

definition getJWKS ::
  "runtime \<Rightarrow> int \<Rightarrow> fetch_outcome \<Rightarrow> local_cache \<Rightarrow>
     (string + json) \<times> local_cache \<times> auth_event list" where
  "getJWKS rt now net c =
     (case (if now < cacheExpiry c then local_jwks c else None) of
        Some held \<Rightarrow> (Inr held, c, [])
      | None \<Rightarrow>
          (case net of
             Rejected m \<Rightarrow> (Inl m, c, [FetchKeys])
           | Resolved r \<Rightarrow>
               (case json_body r of
                  Inl m \<Rightarrow> (Inl m, c, [FetchKeys])
                | Inr jwks \<Rightarrow>
                    (case createLocalJWKSet rt jwks of
                       Some m \<Rightarrow> (Inl m, c, [FetchKeys])
                     | None \<Rightarrow>
                         (Inr jwks,
                          \<lparr>local_jwks = Some jwks, cacheExpiry = now + 30 * 60 * 1000\<rparr>,
                          [FetchKeys])))))"

text \<open>
  A request header read with \<^verbatim>\<open>req.headers.get\<close>, when it passes \<^verbatim>\<open>if (!token)\<close>:
  an absent header is \<^verbatim>\<open>null\<close>, and an empty value is falsy too.
\<close>

fun present :: "string option \<Rightarrow> string option" where
  "present None = None"
| "present (Some t) = (if t = [] then None else Some t)"

text \<open>
  \<^verbatim>\<open>validateRowndToken(req)\<close> of the simplified handler, given the request's
  \<^verbatim>\<open>X-Rownd-Token\<close> header: the object \<^verbatim>\<open>{ ...payload, user_id: payload.sub }\<close>,
  paired with its \<^verbatim>\<open>user_id\<close> (what the caller reads back from it).
\<close>

definition simplified_validateRowndToken ::
  "runtime \<Rightarrow> int \<Rightarrow> fetch_outcome \<Rightarrow> local_cache \<Rightarrow> string option \<Rightarrow>
     (string + json \<times> (string \<times> json) list) \<times> local_cache \<times> auth_event list" where
  "simplified_validateRowndToken rt now net c header =
     (case present header of
        None \<Rightarrow> (Inl ''Missing X-Rownd-Token header'', c, [])
      | Some rowndToken \<Rightarrow>
          (case getJWKS rt now net c of
             (Inl m, c', ev) \<Rightarrow> (Inl (''Token validation failed: '' @ m), c', ev)
           | (Inr jwks, c', ev) \<Rightarrow>
               (case jwtVerifyLocal rt rowndToken jwks of
                  Inl m \<Rightarrow>
                    (Inl (''Token validation failed: '' @ m), c', ev @ [VerifyToken rowndToken])
                | Inr payload \<Rightarrow>
                    (case subject_of payload of
                       None \<Rightarrow>
                         (Inl (''Token validation failed: '' @
                               ''Invalid token: missing sub (user_id)''), c',
                          ev @ [VerifyToken rowndToken])
                     | Some sub \<Rightarrow>
                         (Inr (sub, AList.update ''user_id'' sub payload), c',
                          ev @ [VerifyToken rowndToken])))))"


section \<open>Calls into the data engine\<close>

text \<open>
  A query built on the data engine's client: \<^verbatim>\<open>supabase.from(table)\<close>, one of
  \<^verbatim>\<open>select(columns)\<close>, \<^verbatim>\<open>insert(values)\<close>, \<^verbatim>\<open>update(values)\<close>, \<^verbatim>\<open>delete()\<close>,
  \<^verbatim>\<open>upsert(values)\<close>, the \<^verbatim>\<open>eq(column, value)\<close> filters in the order they were added,
  and whether \<^verbatim>\<open>.select()\<close> follows a mutation (the changed rows are returned).
\<close>

datatype db_action =
    Select json
  | Insert json
  | Update "json option"
  | Delete
  | Upsert json

record db_query =
  q_table :: "json option"
  q_action :: db_action
  q_filters :: "(string \<times> json option) list"
  q_returning :: bool

definition from_table :: "json option \<Rightarrow> db_action \<Rightarrow> db_query" where
  "from_table t a = \<lparr>q_table = t, q_action = a, q_filters = [], q_returning = False\<rparr>"

definition eq_filter :: "string \<Rightarrow> json option \<Rightarrow> db_query \<Rightarrow> db_query" where
  "eq_filter k v q = q\<lparr>q_filters := q_filters q @ [(k, v)]\<rparr>"

definition returning :: "db_query \<Rightarrow> db_query" where
  "returning q = q\<lparr>q_returning := True\<rparr>"

text \<open>
  A call on \<^verbatim>\<open>supabase.storage.from(bucket)\<close>: the bucket, the path (or paths), and for
  an upload the content (\<open>None\<close> for \<^verbatim>\<open>null\<close>) and the options object. The folder of
  a list is the value it was given (the storage proxy gives \<^verbatim>\<open>userId\<close> as it is).
\<close>

datatype storage_call =
    Upload "json option" string "nat list option" "(string \<times> json option) list"
  | Download "json option" string
  | Remove "json option" "string list"
  | ListFiles "json option" json "json option"
  | GetPublicUrl "json option" string

datatype engine_call =
    DbCall db_query
  | StorageCall storage_call
  | RpcCall "json option" "(string \<times> json) list"

text \<open>
  The data engine's client, taken as it is: what awaiting a query gives (the result
  object \<^verbatim>\<open>{ data, error, ... }\<close>), what a storage call and a remote-procedure call
  give, and for a download the blob (its bytes and type, \<open>None\<close> for \<^verbatim>\<open>null\<close>) and the
  error.
\<close>

record supabase_client =
  run_query :: "db_query \<Rightarrow> (string \<times> json) list"
  run_storage :: "storage_call \<Rightarrow> (string \<times> json) list"
  run_download :: "json option \<Rightarrow> string \<Rightarrow> (nat list \<times> string) option \<times> json"
  run_rpc :: "json option \<Rightarrow> (string \<times> json) list \<Rightarrow> (string \<times> json) list"

section \<open>Requests and responses\<close>

text \<open>
  An inbound request: its method, its \<^verbatim>\<open>X-Rownd-Token\<close> header (header names are
  matched without case), what \<^verbatim>\<open>req.json()\<close> gives (\<open>Inl\<close> the message of the error
  it throws) and what \<^verbatim>\<open>req.formData()\<close> gives.
\<close>

record form_data =
  form_file :: "nat list option"
  form_path :: "string option"
  form_bucket :: "string option"
  form_operation :: "string option"

record request =
  req_method :: string
  req_token :: "string option"
  req_body :: "string + json"
  req_form :: "string + form_data"

text \<open>
  A response: the status, the headers, and the body: none, a text, or the value
  \<^verbatim>\<open>JSON.stringify\<close> was given.
\<close>

datatype body = NoBody | Text string | Json json

record response =
  resp_status :: nat
  resp_headers :: "(string \<times> string) list"
  resp_body :: body

text \<open>An object literal whose \<^verbatim>\<open>undefined\<close> properties \<^verbatim>\<open>JSON.stringify\<close> leaves out.\<close>

definition stringified :: "(string \<times> json option) list \<Rightarrow> json" where
  "stringified kvs =
     JObj (concat (map (\<lambda>(k, v). case v of None \<Rightarrow> [] | Some x \<Rightarrow> [(k, x)]) kvs))"

definition corsHeaders :: "(string \<times> string) list" where
  "corsHeaders =
     [(''Access-Control-Allow-Origin'', ''*''),
      (''Access-Control-Allow-Headers'',
       ''authorization, x-client-info, apikey, content-type, x-rownd-token'')]"

text \<open>\<^verbatim>\<open>{ ...corsHeaders, 'Content-Type': 'application/json' }\<close> around a JSON body.\<close>

definition json_response :: "(string \<times> string) list \<Rightarrow> nat \<Rightarrow> json \<Rightarrow> response" where
  "json_response cors st j =
     \<lparr>resp_status = st,
      resp_headers = AList.update ''Content-Type'' ''application/json'' cors,
      resp_body = Json j\<rparr>"


section \<open>The universal proxy\<close>

text \<open>
  Each branch gives the value handed to \<^verbatim>\<open>JSON.stringify\<close> (or \<open>Inl\<close> the message of
  the error thrown) and the calls it made into the data engine, in order.
\<close>

definition forward_query ::
  "supabase_client \<Rightarrow> db_query \<Rightarrow> (string + json) \<times> engine_call list" where
  "forward_query sb q = (Inr (JObj (run_query sb q)), [DbCall q])"

definition forward_storage ::
  "supabase_client \<Rightarrow> storage_call \<Rightarrow> (string + json) \<times> engine_call list" where
  "forward_storage sb c = (Inr (JObj (run_storage sb c)), [StorageCall c])"

text \<open>\<^verbatim>\<open>if (resource === 'database')\<close>: the \<^verbatim>\<open>switch (operation)\<close>.\<close>

definition db_operation ::
  "supabase_client \<Rightarrow> json \<Rightarrow> json \<Rightarrow> (string + json) \<times> engine_call list" where
  "db_operation sb userId body =
     (let operation = get_prop body ''operation'';
          table = get_prop body ''table'';
          query = get_prop body ''query''
      in
      if operation = Some (JStr ''select'') then
        (case read_prop query ''select'' of
           Inl m \<Rightarrow> (Inl m, [])
         | Inr sel \<Rightarrow>
             forward_query sb
               (eq_filter ''user_id'' (Some userId)
                 (from_table table (Select (js_or sel (JStr ''*''))))))
      else if operation = Some (JStr ''insert'') then
        forward_query sb
          (from_table table (Insert (JObj (with_user_id (get_prop body ''data'') userId))))
      else if operation = Some (JStr ''update'') then
        forward_query sb
          (eq_filter ''id'' (get_prop body ''id'')
            (eq_filter ''user_id'' (Some userId)
              (from_table table (Update (get_prop body ''data'')))))
      else if operation = Some (JStr ''delete'') then
        forward_query sb
          (eq_filter ''id'' (get_prop body ''id'')
            (eq_filter ''user_id'' (Some userId) (from_table table Delete)))
      else if operation = Some (JStr ''upsert'') then
        forward_query sb
          (from_table table (Upsert (JObj (with_user_id (get_prop body ''data'') userId))))
      else (Inl (message_with ''Unknown database operation: '' operation), []))"

text \<open>
  The path \<^verbatim>\<open>`${userId}/${x}`\<close>: the string of \<^verbatim>\<open>userId\<close>, then that of \<open>x\<close>; and
  \<^verbatim>\<open>ps.map((p) => `${userId}/${p}`)\<close>, which stops at the first element that throws.
\<close>

definition user_path :: "json \<Rightarrow> json option \<Rightarrow> string + string" where
  "user_path userId x =
     (case js_string userId of
        Inl m \<Rightarrow> Inl m
      | Inr u \<Rightarrow> (case template x of Inl m \<Rightarrow> Inl m | Inr t \<Rightarrow> Inr (u @ ''/'' @ t)))"

fun user_paths :: "json \<Rightarrow> json list \<Rightarrow> string + string list" where
  "user_paths userId [] = Inr []"
| "user_paths userId (p # ps) =
     (case user_path userId (Some p) of
        Inl m \<Rightarrow> Inl m
      | Inr k \<Rightarrow> (case user_paths userId ps of Inl m \<Rightarrow> Inl m | Inr ks \<Rightarrow> Inr (k # ks)))"

text \<open>
  \<^verbatim>\<open>body.paths.map(...)\<close>: the elements of an array; anything else has no \<^verbatim>\<open>map\<close> to
  call.
\<close>

fun paths_of :: "json option \<Rightarrow> string + json list" where
  "paths_of None = Inl (type_error ''undefined'' ''map'')"
| "paths_of (Some JNull) = Inl (type_error ''null'' ''map'')"
| "paths_of (Some (JArr ps)) = Inr ps"
| "paths_of (Some v) = Inl ''body.paths.map is not a function''"

text \<open>\<^verbatim>\<open>{ ...options, contentType: file.type }\<close>.\<close>

definition upload_options :: "json option \<Rightarrow> json option \<Rightarrow> (string \<times> json option) list" where
  "upload_options options ty =
     AList.update ''contentType'' ty (map (\<lambda>(k, v). (k, Some v)) (own_entries options))"

text \<open>\<^verbatim>\<open>if (resource === 'storage')\<close>: the \<^verbatim>\<open>switch (operation)\<close>.\<close>

definition storage_operation ::
  "runtime \<Rightarrow> supabase_client \<Rightarrow> json \<Rightarrow> json \<Rightarrow> (string + json) \<times> engine_call list" where
  "storage_operation rt sb userId body =
     (let operation = get_prop body ''operation'';
          bucket = get_prop body ''bucket'';
          path = get_prop body ''path''
      in
      if operation = Some (JStr ''upload'') then
        (let file = get_prop body ''file''; options = get_prop body ''options'' in
         case read_prop file ''data'' of
           Inl m \<Rightarrow> (Inl m, [])
         | Inr d \<Rightarrow>
             (case template d of
                Inl m \<Rightarrow> (Inl m, [])
              | Inr encoded \<Rightarrow>
                  (case atob rt encoded of
                     Inl m \<Rightarrow> (Inl m, [])
                   | Inr buffer \<Rightarrow>
                       (case user_path userId path of
                          Inl m \<Rightarrow> (Inl m, [])
                        | Inr p \<Rightarrow>
                            (case read_prop file ''type'' of
                               Inl m \<Rightarrow> (Inl m, [])
                             | Inr ty \<Rightarrow>
                                 forward_storage sb
                                   (Upload bucket p (Some buffer) (upload_options options ty)))))))
      else if operation = Some (JStr ''download'') then
        (case user_path userId path of
           Inl m \<Rightarrow> (Inl m, [])
         | Inr p \<Rightarrow>
             (let reply = run_download sb bucket p in
              if truthy (Some (snd reply))
              then (Inr (JObj [(''data'', JNull), (''error'', snd reply)]),
                    [StorageCall (Download bucket p)])
              else
                (case fst reply of
                   None \<Rightarrow>
                     (Inl (type_error ''null'' ''arrayBuffer''), [StorageCall (Download bucket p)])
                 | Some (bytes, ty) \<Rightarrow>
                     (Inr (JObj [(''data'', JObj [(''base64'', JStr (btoa rt bytes)),
                                                 (''type'', JStr ty)]),
                                 (''error'', JNull)]),
                      [StorageCall (Download bucket p)]))))
      else if operation = Some (JStr ''remove'') then
        (case paths_of (get_prop body ''paths'') of
           Inl m \<Rightarrow> (Inl m, [])
         | Inr ps \<Rightarrow>
             (case user_paths userId ps of
                Inl m \<Rightarrow> (Inl m, [])
              | Inr ks \<Rightarrow> forward_storage sb (Remove bucket ks)))
      else if operation = Some (JStr ''list'') then
        (case user_path userId (Some (js_or path (JStr []))) of
           Inl m \<Rightarrow> (Inl m, [])
         | Inr p \<Rightarrow> forward_storage sb (ListFiles bucket (JStr p) (get_prop body ''options'')))
      else (Inl (message_with ''Unknown storage operation: '' operation), []))"

text \<open>\<^verbatim>\<open>if (resource === 'rpc')\<close>.\<close>

definition rpc_operation ::
  "supabase_client \<Rightarrow> json \<Rightarrow> json \<Rightarrow> (string + json) \<times> engine_call list" where
  "rpc_operation sb userId body =
     (let functionName = get_prop body ''functionName'';
          args = with_user_id (get_prop body ''args'') userId
      in (Inr (JObj (run_rpc sb functionName args)), [RpcCall functionName args]))"

text \<open>
  The handler's \<^verbatim>\<open>try\<close> block after the token is validated: parse the body, read
  \<^verbatim>\<open>resource\<close> and \<^verbatim>\<open>operation\<close> (which throws on \<^verbatim>\<open>null\<close>), and dispatch.
\<close>

definition route ::
  "runtime \<Rightarrow> supabase_client \<Rightarrow> json \<Rightarrow> string + json \<Rightarrow>
     (string + json) \<times> engine_call list" where
  "route rt sb userId parsed =
     (case parsed of
        Inl m \<Rightarrow> (Inl m, [])
      | Inr body \<Rightarrow>
          if body = JNull
          then (Inl (destructure_error ''resource'' ''body''), [])
          else
            (let resource = get_prop body ''resource'' in
             if resource = Some (JStr ''health'')
             then (Inr (JObj [(''status'', JStr ''ok''), (''userId'', userId)]), [])
             else if resource = Some (JStr ''database'') then db_operation sb userId body
             else if resource = Some (JStr ''storage'') then storage_operation rt sb userId body
             else if resource = Some (JStr ''rpc'') then rpc_operation sb userId body
             else (Inl (message_with ''Unknown resource: '' resource), [])))"

text \<open>The \<^verbatim>\<open>catch\<close> block: 401 when the message says \<^verbatim>\<open>Invalid token\<close>, 500 otherwise.\<close>

definition error_response :: "string \<Rightarrow> response" where
  "error_response m =
     json_response corsHeaders (if str_includes m ''Invalid token'' then 401 else 500)
       (JObj [(''error'', JStr m)])"

text \<open>
  The handler given to \<^verbatim>\<open>serve\<close>: the response, the key cache afterwards, what the
  verifier did and the calls made into the data engine.
\<close>

definition serve ::
  "runtime \<Rightarrow> supabase_client \<Rightarrow> int \<Rightarrow> fetch_outcome \<Rightarrow> key_cache \<Rightarrow> request \<Rightarrow>
     response \<times> key_cache \<times> auth_event list \<times> engine_call list" where
  "serve rt sb now net c req =
     (if req_method req = ''OPTIONS''
      then (\<lparr>resp_status = 200, resp_headers = corsHeaders, resp_body = NoBody\<rparr>, c, [], [])
      else
        (case present (req_token req) of
           None \<Rightarrow>
             (json_response corsHeaders 401 (JObj [(''error'', JStr ''Missing X-Rownd-Token header'')]),
              c, [], [])
         | Some token \<Rightarrow>
             (case validateRowndToken rt now net c token of
                (Inl m, c', ev) \<Rightarrow> (error_response m, c', ev, [])
              | (Inr (userId, payload), c', ev) \<Rightarrow>
                  (case route rt sb userId (req_body req) of
                     (Inl m, calls) \<Rightarrow> (error_response m, c', ev, calls)
                   | (Inr j, calls) \<Rightarrow> (json_response corsHeaders 200 j, c', ev, calls)))))"


section \<open>The edge wrapper\<close>

text \<open>
  \<^verbatim>\<open>response.headers.has(name)\<close> and \<^verbatim>\<open>response.headers.set(name, value)\<close>: header
  names are compared without case.
\<close>

definition lower :: "string \<Rightarrow> string" where
  "lower s =
     map (\<lambda>c. if (65::nat) \<le> of_char c \<and> of_char c \<le> (90::nat)
                then char_of (of_char c + (32::nat)) else c) s"

definition has_header :: "string \<Rightarrow> (string \<times> string) list \<Rightarrow> bool" where
  "has_header name hs = (lower name \<in> set (map (\<lambda>(k, v). lower k) hs))"

definition set_header :: "string \<times> string \<Rightarrow> (string \<times> string) list \<Rightarrow> (string \<times> string) list" where
  "set_header kv hs = filter (\<lambda>(k, v). lower k \<noteq> lower (fst kv)) hs @ [kv]"

text \<open>
  The handler the caller gives to the wrapper, with the data-engine client it is
  handed: its response (or \<open>Inl\<close> the message of the error it throws) and the calls
  it made.
\<close>

type_synonym edge_handler =
  "request \<Rightarrow> json \<Rightarrow> (string \<times> json) list \<Rightarrow> (string + response) \<times> engine_call list"

definition edge_serve ::
  "edge_handler \<Rightarrow> runtime \<Rightarrow> int \<Rightarrow> edge_cache \<Rightarrow> request \<Rightarrow>
     response \<times> edge_cache \<times> auth_event list \<times> engine_call list" where
  "edge_serve handler rt now c req =
     (if req_method req = ''OPTIONS''
      then (\<lparr>resp_status = 200, resp_headers = corsHeaders, resp_body = NoBody\<rparr>, c, [], [])
      else
        (case present (req_token req) of
           None \<Rightarrow>
             (json_response corsHeaders 401 (JObj [(''error'', JStr ''Missing X-Rownd-Token header'')]),
              c, [], [])
         | Some token \<Rightarrow>
             (case edge_validateRowndToken rt now c token of
                (Inl m, c', ev) \<Rightarrow> (error_response m, c', ev, [])
              | (Inr (userId, payload), c', ev) \<Rightarrow>
                  (case handler req userId payload of
                     (Inl m, calls) \<Rightarrow> (error_response m, c', ev, calls)
                   | (Inr r, calls) \<Rightarrow>
                       (if has_header ''Access-Control-Allow-Origin'' (resp_headers r) then r
                        else r\<lparr>resp_headers := fold set_header corsHeaders (resp_headers r)\<rparr>,
                        c', ev, calls)))))"

section \<open>The simplified handler\<close>

record handler_options =
  corsOrigin :: "string option"
  additionalHeaders :: "string list option"

text \<open>\<^verbatim>\<open>xs.join(', ')\<close>.\<close>

fun join :: "string list \<Rightarrow> string" where
  "join [] = []"
| "join [x] = x"
| "join (x # y # ys) = x @ '', '' @ join (y # ys)"

definition handler_corsHeaders :: "handler_options \<Rightarrow> (string \<times> string) list" where
  "handler_corsHeaders options =
     [(''Access-Control-Allow-Origin'',
       (case present (corsOrigin options) of None \<Rightarrow> ''*'' | Some origin \<Rightarrow> origin)),
      (''Access-Control-Allow-Headers'',
       join ([''authorization'', ''x-client-info'', ''apikey'', ''content-type'', ''x-rownd-token'']
             @ (case additionalHeaders options of None \<Rightarrow> [] | Some hs \<Rightarrow> hs)))]"

text \<open>
  What a handler throws: an \<^verbatim>\<open>Error\<close> with its message, or a value (the data engine's
  error object, thrown as it came). \<^verbatim>\<open>error.message\<close> reads either.
\<close>

datatype thrown = Error string | Thrown json

fun message_of :: "thrown \<Rightarrow> json option" where
  "message_of (Error m) = Some (JStr m)"
| "message_of (Thrown e) = get_prop e ''message''"

text \<open>What a handler returns: a \<^verbatim>\<open>Response\<close>, or a value to be sent as JSON.\<close>

datatype handler_result = AsResponse response | AsValue json

type_synonym handler =
  "request \<Rightarrow> json \<Rightarrow> (string \<times> json) list \<Rightarrow> (thrown + handler_result) \<times> engine_call list"

text \<open>
  \<^verbatim>\<open>createRowndHandler(handler, options)\<close>, on one request. The handler is given
  \<^verbatim>\<open>tokenPayload.user_id\<close> as \<^verbatim>\<open>userId\<close> and \<^verbatim>\<open>tokenPayload\<close> as \<^verbatim>\<open>token\<close>.
\<close>

definition createRowndHandler ::
  "handler \<Rightarrow> handler_options \<Rightarrow> runtime \<Rightarrow> int \<Rightarrow> fetch_outcome \<Rightarrow> local_cache \<Rightarrow> request \<Rightarrow>
     response \<times> local_cache \<times> auth_event list \<times> engine_call list" where
  "createRowndHandler handler options rt now net c req =
     (if req_method req = ''OPTIONS''
      then (\<lparr>resp_status = 200, resp_headers = handler_corsHeaders options, resp_body = Text ''ok''\<rparr>,
            c, [], [])
      else
        (case simplified_validateRowndToken rt now net c (req_token req) of
           (Inl m, c', ev) \<Rightarrow>
             (json_response (handler_corsHeaders options) 400 (JObj [(''error'', JStr m)]),
              c', ev, [])
         | (Inr (user_id, tokenPayload), c', ev) \<Rightarrow>
             (case handler req user_id tokenPayload of
                (Inl e, calls) \<Rightarrow>
                  (json_response (handler_corsHeaders options) 400
                     (stringified [(''error'', message_of e)]), c', ev, calls)
              | (Inr (AsResponse r), calls) \<Rightarrow> (r, c', ev, calls)
              | (Inr (AsValue v), calls) \<Rightarrow>
                  (json_response (handler_corsHeaders options) 200 v, c', ev, calls))))"


section \<open>The example handlers: database proxy and storage proxy\<close>

text \<open>\<^verbatim>\<open>if (error) throw error\<close>: the error when it is truthy.\<close>

definition raised :: "json option \<Rightarrow> json option" where
  "raised e = (if truthy e then e else None)"

text \<open>
  The database proxy, a handler for \<^verbatim>\<open>createRowndHandler\<close>. It reads
  \<^verbatim>\<open>operation, table, columns, values, filters, id\<close> from the JSON body.
\<close>

definition db_proxy :: "supabase_client \<Rightarrow> handler" where
  "db_proxy sb req userId token =
     (case req_body req of
        Inl m \<Rightarrow> (Inl (Error m), [])
      | Inr body \<Rightarrow>
          if body = JNull
          then (Inl (Error (destructure_error ''operation'' ''(intermediate value)'')), [])
          else
            (let operation = get_prop body ''operation'';
                 table = get_prop body ''table'';
                 columns = get_prop body ''columns'';
                 values = get_prop body ''values'';
                 filters = get_prop body ''filters'';
                 id = get_prop body ''id''
             in
             if operation = Some (JStr ''select'') then
               (let q0 = from_table table (Select (js_or columns (JStr ''*'')));
                    q1 = (if table \<noteq> Some (JStr ''public_tables'')
                          then eq_filter ''user_id'' (Some userId) q0 else q0);
                    q2 = (if truthy filters
                          then fold (\<lambda>(key, value). eq_filter key (Some value))
                                 (own_entries filters) q1
                          else q1);
                    r = run_query sb q2
                in
                case raised (map_of r ''error'') of
                  Some selectError \<Rightarrow> (Inl (Thrown selectError), [DbCall q2])
                | None \<Rightarrow>
                    (Inr (AsValue (stringified [(''result'', map_of r ''data'')])), [DbCall q2]))
             else if operation = Some (JStr ''insert'') then
               (let insertValues =
                      (case values of
                         Some (JArr vs) \<Rightarrow> JArr (map (\<lambda>v. JObj (with_user_id (Some v) userId)) vs)
                       | _ \<Rightarrow> JObj (with_user_id values userId));
                    q = returning (from_table table (Insert insertValues));
                    r = run_query sb q
                in
                case raised (map_of r ''error'') of
                  Some insertError \<Rightarrow> (Inl (Thrown insertError), [DbCall q])
                | None \<Rightarrow>
                    (Inr (AsValue (stringified [(''result'', map_of r ''data'')])), [DbCall q]))
             else if operation = Some (JStr ''update'') then
               (let q = returning
                          (eq_filter ''user_id'' (Some userId)
                            (eq_filter ''id'' id (from_table table (Update values))));
                    r = run_query sb q
                in
                case raised (map_of r ''error'') of
                  Some updateError \<Rightarrow> (Inl (Thrown updateError), [DbCall q])
                | None \<Rightarrow>
                    (Inr (AsValue (stringified [(''result'', map_of r ''data'')])), [DbCall q]))
             else if operation = Some (JStr ''delete'') then
               (let q = eq_filter ''user_id'' (Some userId)
                          (eq_filter ''id'' id (from_table table Delete));
                    r = run_query sb q
                in
                case raised (map_of r ''error'') of
                  Some deleteError \<Rightarrow> (Inl (Thrown deleteError), [DbCall q])
                | None \<Rightarrow>
                    (Inr (AsValue (JObj [(''result'', JObj [(''success'', JBool True)])])),
                     [DbCall q]))
             else (Inl (Error (message_with ''Unsupported operation: '' operation)), [])))"



section \<open>The client wrapper's database requests\<close>

text \<open>
  The properties \<^verbatim>\<open>serializeQuery\<close> reads from the query builder (\<^verbatim>\<open>_filters\<close>,
  \<^verbatim>\<open>_select\<close>, \<^verbatim>\<open>_order\<close>, \<^verbatim>\<open>_limit\<close>), and the object it returns.
\<close>

record query_state =
  qs_filters :: "json option"
  qs_select :: "json option"
  qs_order :: "json option"
  qs_limit :: "json option"

definition serializeQuery :: "query_state \<Rightarrow> (string \<times> json option) list" where
  "serializeQuery query =
     [(''filters'', Some (js_or (qs_filters query) (JObj []))),
      (''select'', Some (js_or (qs_select query) (JStr ''*''))),
      (''order'', Some (js_or (qs_order query) (JArr []))),
      (''limit'', qs_limit query)]"

text \<open>
  The data engine's query builder, taken as it is: the method \<open>qbProp\<close> called with
  the arguments \<open>args\<close> (the values of an insert among them) gives a query, of which
  the wrapper reads the four properties above.
\<close>

type_synonym query_builder = "string \<Rightarrow> json list \<Rightarrow> query_state"

text \<open>
  The request the wrapper sends for \<^verbatim>\<open>from(table).select/insert/update/delete/upsert\<close>
  called with \<open>args\<close>: \<^verbatim>\<open>const query = qbTarget[qbProp](...args)\<close>, then the body of
  \<^verbatim>\<open>functions.invoke('_rownd_universal_proxy', ...)\<close> as the proxy parses it, under the
  header \<^verbatim>\<open>X-Rownd-Token\<close>.
\<close>

definition client_request ::
  "query_builder \<Rightarrow> string \<Rightarrow> string \<Rightarrow> json list \<Rightarrow> string \<Rightarrow> request" where
  "client_request qbTarget token qbProp args table =
     (let query = qbTarget qbProp args in
      \<lparr>req_method = ''POST'',
       req_token = Some token,
       req_body =
         Inr (JObj [(''resource'', JStr ''database''),
                    (''operation'', JStr qbProp),
                    (''table'', JStr table),
                    (''query'', stringified (serializeQuery query))]),
       req_form = Inl ''Body can not be decoded as form data''\<rparr>)"

section \<open>Reference semantics of the data engine's queries\<close>

text \<open>
  The data engine is outside the repository. Where a property speaks of the rows a
  query returns or changes, it is read against this reference semantics of the
  queries the proxies build: a table, named by the value given to \<^verbatim>\<open>from\<close>, is a list
  of rows, a row is the list of its columns, \<^verbatim>\<open>eq(column, value)\<close> keeps the rows that
  hold that value in that column, and all filters of a query apply together. The
  projection of a row on the requested columns is a parameter.
\<close>

type_synonym row = "(string \<times> json) list"

type_synonym database = "json option \<Rightarrow> row list"

definition matches :: "(string \<times> json option) list \<Rightarrow> row \<Rightarrow> bool" where
  "matches fs r = list_all (\<lambda>(k, v). v \<noteq> None \<and> map_of r k = v) fs"

definition new_rows :: "json \<Rightarrow> row list" where
  "new_rows v =
     (case v of JArr vs \<Rightarrow> map (\<lambda>x. own_entries (Some x)) vs | _ \<Rightarrow> [own_entries (Some v)])"

definition overwrite :: "json option \<Rightarrow> row \<Rightarrow> row" where
  "overwrite v r = fold (\<lambda>(k, x). AList.update k x) (own_entries v) r"

definition engine_reply :: "json \<Rightarrow> (string \<times> json) list" where
  "engine_reply d = [(''error'', JNull), (''data'', d), (''count'', JNull)]"

text \<open>
  The result object of a query and the database after it. Rows are returned by a
  select, and by a mutation followed by \<^verbatim>\<open>.select()\<close>; an upsert replaces the rows
  that have the \<^verbatim>\<open>id\<close> of a new row.
\<close>

definition run_engine ::
  "(json \<Rightarrow> row \<Rightarrow> row) \<Rightarrow> database \<Rightarrow> db_query \<Rightarrow> (string \<times> json) list \<times> database" where
  "run_engine proj db q =
     (let t = q_table q;
          hit = filter (matches (q_filters q)) (db t);
          listed = (\<lambda>rs. if q_returning q then JArr (map JObj rs) else JNull)
      in
      case q_action q of
        Select cols \<Rightarrow> (engine_reply (JArr (map (\<lambda>r. JObj (proj cols r)) hit)), db)
      | Insert v \<Rightarrow> (engine_reply (listed (new_rows v)), db(t := db t @ new_rows v))
      | Update v \<Rightarrow>
          (engine_reply (listed (map (overwrite v) hit)),
           db(t := map (\<lambda>r. if matches (q_filters q) r then overwrite v r else r) (db t)))
      | Delete \<Rightarrow>
          (engine_reply (listed hit),
           db(t := filter (\<lambda>r. \<not> matches (q_filters q) r) (db t)))
      | Upsert v \<Rightarrow>
          (engine_reply (listed (new_rows v)),
           db(t := filter (\<lambda>r. map_of r ''id'' = None
                             \<or> map_of r ''id'' \<notin> set (map (\<lambda>n. map_of n ''id'') (new_rows v)))
                     (db t) @ new_rows v)))"

text \<open>A client whose queries run on the database \<open>db\<close>.\<close>

definition on_database ::
  "(json \<Rightarrow> row \<Rightarrow> row) \<Rightarrow> database \<Rightarrow> supabase_client \<Rightarrow> supabase_client" where
  "on_database proj db sb = sb\<lparr>run_query := (\<lambda>q. fst (run_engine proj db q))\<rparr>"

text \<open>The database after the queries among the calls made.\<close>

fun after_call :: "(json \<Rightarrow> row \<Rightarrow> row) \<Rightarrow> engine_call \<Rightarrow> database \<Rightarrow> database" where
  "after_call proj (DbCall q) db = snd (run_engine proj db q)"
| "after_call proj c db = db"

definition after_calls :: "(json \<Rightarrow> row \<Rightarrow> row) \<Rightarrow> database \<Rightarrow> engine_call list \<Rightarrow> database" where
  "after_calls proj db calls = fold (after_call proj) calls db"

text \<open>The rows a response lists under the property \<open>k\<close> of its JSON body.\<close>

fun rows_of :: "json option \<Rightarrow> json list" where
  "rows_of (Some (JArr rows)) = rows"
| "rows_of v = []"

definition returned_rows :: "string \<Rightarrow> response \<Rightarrow> json list" where
  "returned_rows k r = (case resp_body r of Json j \<Rightarrow> rows_of (get_prop j k) | _ \<Rightarrow> [])"


section \<open>Namespaces of the object store\<close>









section \<open>Reading the outcome of a request\<close>

text \<open>
  A handler gives the response, its cache, what the verifier did and the calls made
  into the data engine.
\<close>

definition the_response :: "response \<times> 'c \<times> auth_event list \<times> engine_call list \<Rightarrow> response" where
  "the_response out = fst out"

definition the_calls :: "response \<times> 'c \<times> auth_event list \<times> engine_call list \<Rightarrow> engine_call list" where
  "the_calls out = snd (snd (snd out))"

section \<open>Example values\<close>

text \<open>
  Two key-set documents; a library that accepts \<^verbatim>\<open>token-42\<close> for the subject
  \<^verbatim>\<open>user-42\<close> (locally only against \<open>example_keys\<close>), and whose remote key set sends
  one request in the call it was made for; a data-engine client; a table
  with one row of \<^verbatim>\<open>user-42\<close> and one of \<^verbatim>\<open>user-99\<close>; the two caches as a fetch at
  time 0 left them (within their windows at time 1000, past them at time 4000000); and
  an endpoint that serves \<open>example_keys\<close>.
\<close>

definition example_keys :: json where
  "example_keys = JObj [(''keys'', JArr [JObj [(''kid'', JStr ''key-2'')]])]"

definition rotated_keys :: json where
  "rotated_keys = JObj [(''keys'', JArr [JObj [(''kid'', JStr ''key-1'')]])]"

definition example_runtime :: runtime where
  "example_runtime =
     \<lparr>jwtVerifyRemote = (\<lambda>made now token.
         (if token = ''token-42'' then Inr [(''sub'', JStr ''user-42'')]
          else Inl ''no applicable key found in the JSON Web Key Set'',
          if made = now then 1 else 0)),
      createLocalJWKSet = (\<lambda>jwks.
         if get_prop jwks ''keys'' = None then Some ''JSON Web Key Set malformed'' else None),
      jwtVerifyLocal = (\<lambda>token jwks.
         if token = ''token-42'' \<and> jwks = example_keys then Inr [(''sub'', JStr ''user-42'')]
         else Inl ''no applicable key found in the JSON Web Key Set''),
      atob = (\<lambda>s. if s = ''aGk='' then Inr [104, 105] else Inl ''Failed to decode base64''),
      btoa = (\<lambda>bytes. if bytes = [104, 105] then ''aGk='' else [])\<rparr>"

definition example_client :: supabase_client where
  "example_client =
     \<lparr>run_query = (\<lambda>q. engine_reply JNull),
      run_storage = (\<lambda>c. [(''data'', JObj [(''path'', JStr ''stored''), (''publicUrl'', JStr ''url'')]),
                           (''error'', JNull)]),
      run_download = (\<lambda>bucket p. (Some ([104, 105], ''text/plain''), JNull)),
      run_rpc = (\<lambda>fn args. engine_reply JNull)\<rparr>"

definition example_db :: database where
  "example_db =
     (\<lambda>t. if t = Some (JStr ''todos'')
          then [[(''id'', JNum ''1''), (''user_id'', JStr ''user-42''), (''done'', JBool False)],
                [(''id'', JNum ''7''), (''user_id'', JStr ''user-99''), (''done'', JBool True)]]
          else [])"

definition held_keys :: key_cache where
  "held_keys = \<lparr>jwksCache = Some rotated_keys, jwksCacheTime = 0\<rparr>"

definition held_local_keys :: local_cache where
  "held_local_keys = \<lparr>local_jwks = Some example_keys, cacheExpiry = 1800000\<rparr>"

definition keys_endpoint :: fetch_outcome where
  "keys_endpoint = Resolved (HttpResponse True ''OK'' (Inr example_keys))"

text \<open>
  A query builder whose queries have none of the properties \<^verbatim>\<open>serializeQuery\<close> reads.
\<close>

definition example_builder :: query_builder where
  "example_builder =
     (\<lambda>qbProp args.
        \<lparr>qs_filters = None, qs_select = None, qs_order = None, qs_limit = None\<rparr>)"

text \<open>A JSON request with the given token header and body.\<close>

definition post :: "string option \<Rightarrow> json \<Rightarrow> request" where
  "post header j =
     \<lparr>req_method = ''POST'', req_token = header, req_body = Inr j,
      req_form = Inl ''Body can not be decoded as form data''\<rparr>"



section \<open>Lemmas on the handlers\<close>

text \<open>Past the token check, the universal proxy answers with what \<open>route\<close> gives.\<close>

lemma serve_authenticated:
  assumes "req_method req \<noteq> ''OPTIONS''"
    and "present (req_token req) = Some token"
    and "validateRowndToken rt now net c token = (Inr (userId, payload), c', ev)"
  shows "serve rt sb now net c req =
           (case route rt sb userId (req_body req) of
              (Inl m, calls) \<Rightarrow> (error_response m, c', ev, calls)
            | (Inr j, calls) \<Rightarrow> (json_response corsHeaders 200 j, c', ev, calls))"
  using assms by (simp add: serve_def)

lemma simplified_authenticated:
  assumes "req_method req \<noteq> ''OPTIONS''"
    and "simplified_validateRowndToken rt now net d (req_token req) = (Inr (userId, tp), d', ev)"
  shows "createRowndHandler handler options rt now net d req =
           (case handler req userId tp of
              (Inl e, calls) \<Rightarrow>
                (json_response (handler_corsHeaders options) 400
                   (stringified [(''error'', message_of e)]), d', ev, calls)
            | (Inr (AsResponse r), calls) \<Rightarrow> (r, d', ev, calls)
            | (Inr (AsValue v), calls) \<Rightarrow>
                (json_response (handler_corsHeaders options) 200 v, d', ev, calls))"
  using assms by (simp add: createRowndHandler_def)

lemma route_database:
  assumes "body \<noteq> JNull" and "get_prop body ''resource'' = Some (JStr ''database'')"
  shows "route rt sb userId (Inr body) = db_operation sb userId body"
  using assms by (simp add: route_def)


lemma route_rpc:
  assumes "body \<noteq> JNull" and "get_prop body ''resource'' = Some (JStr ''rpc'')"
  shows "route rt sb userId (Inr body) = rpc_operation sb userId body"
  using assms by (simp add: route_def)





lemma with_user_id_owner: "map_of (with_user_id x u) ''user_id'' = Some u"
  by (simp add: with_user_id_def update_conv')

text \<open>The filters a query gathers, and what they say of a row they let through.\<close>

lemma fold_eq_filter:
  "fold (\<lambda>(key, value). eq_filter key (Some value)) es q =
     q\<lparr>q_filters := q_filters q @ map (\<lambda>(key, value). (key, Some value)) es\<rparr>"
  by (induction es arbitrary: q) (auto simp: eq_filter_def)

lemma matches_filter:
  "(k, Some v) \<in> set fs \<Longrightarrow> matches fs r \<Longrightarrow> map_of r k = Some v"
  by (auto simp: matches_def list_all_iff)

lemma owned_rows:
  assumes "(''user_id'', Some userId) \<in> set fs"
    and "row \<in> set (map (\<lambda>r. JObj (proj cols r)) (filter (matches fs) rows))"
  shows "\<exists>r \<in> set rows. map_of r ''user_id'' = Some userId \<and> (\<exists>cols. row = JObj (proj cols r))"
  using assms by (auto dest: matches_filter)

lemma not_owned_no_match:
  assumes "\<forall>r \<in> set rows. map_of r ''id'' = i \<longrightarrow> map_of r ''user_id'' \<noteq> Some userId"
  shows "\<forall>r \<in> set rows. \<not> matches [(''user_id'', Some userId), (''id'', i)] r"
    and "\<forall>r \<in> set rows. \<not> matches [(''id'', i), (''user_id'', Some userId)] r"
  using assms by (auto simp: matches_def)

text \<open>The reference engine on a select, and on a mutation whose filters match no row.\<close>

lemma run_engine_select:
  "q_action q = Select cols \<Longrightarrow>
     run_engine proj db q =
       (engine_reply (JArr (map (\<lambda>r. JObj (proj cols r))
          (filter (matches (q_filters q)) (db (q_table q))))), db)"
  by (simp add: run_engine_def Let_def)

lemma run_engine_no_match:
  assumes "q_action q = Update v \<or> q_action q = Delete"
    and "\<forall>r \<in> set (db (q_table q)). \<not> matches (q_filters q) r"
  shows "run_engine proj db q = (engine_reply (if q_returning q then JArr [] else JNull), db)"
proof -
  have f: "filter (matches (q_filters q)) (db (q_table q)) = []"
    using assms(2) by (simp add: filter_empty_conv)
  have m: "map (\<lambda>r. if matches (q_filters q) r then overwrite v r else r)
             (db (q_table q)) = db (q_table q)"
    using assms(2) by (simp add: map_idI)
  have d: "filter (\<lambda>r. \<not> matches (q_filters q) r) (db (q_table q)) =
             db (q_table q)"
    using assms(2) by simp
  show ?thesis
    using assms(1) by (auto simp: run_engine_def Let_def f m d)
qed

text \<open>The rows the two select handlers list come from rows of the caller.\<close>

lemma universal_select_rows:
  assumes "body \<noteq> JNull"
    and "get_prop body ''operation'' = Some (JStr ''select'')"
    and "db_operation (on_database proj db sb) userId body = (Inr j, calls)"
    and "row \<in> set (rows_of (get_prop j ''data''))"
  shows "\<exists>r \<in> set (db (get_prop body ''table'')).
           map_of r ''user_id'' = Some userId \<and> (\<exists>cols. row = JObj (proj cols r))"
proof -
  obtain sel where s: "read_prop (get_prop body ''query'') ''select'' = Inr sel"
    using assms(2,3) by (auto simp: db_operation_def Let_def split: sum.splits)
  let ?q = "eq_filter ''user_id'' (Some userId)
              (from_table (get_prop body ''table'') (Select (js_or sel (JStr ''*''))))"
  have j: "j = JObj (fst (run_engine proj db ?q))"
    using assms(2,3) s
    by (simp add: db_operation_def Let_def forward_query_def on_database_def)
  have "row \<in> set (map (\<lambda>r. JObj (proj (js_or sel (JStr ''*'')) r))
          (filter (matches [(''user_id'', Some userId)]) (db (get_prop body ''table''))))"
    using assms(4) unfolding j
    by (simp add: run_engine_select [where cols = "js_or sel (JStr ''*'')"] eq_filter_def
        from_table_def engine_reply_def)
  then show ?thesis
    by (intro owned_rows [where fs = "[(''user_id'', Some userId)]"]) simp_all
qed

lemma db_proxy_select_rows:
  assumes "req_body req = Inr body" and "body \<noteq> JNull"
    and "get_prop body ''operation'' = Some (JStr ''select'')"
    and "get_prop body ''table'' \<noteq> Some (JStr ''public_tables'')"
    and "db_proxy (on_database proj db sb) req userId tp = (Inr (AsValue j), calls)"
    and "row \<in> set (rows_of (get_prop j ''result''))"
  shows "\<exists>r \<in> set (db (get_prop body ''table'')).
           map_of r ''user_id'' = Some userId \<and> (\<exists>cols. row = JObj (proj cols r))"
proof -
  let ?cols = "js_or (get_prop body ''columns'') (JStr ''*'')"
  let ?q1 = "eq_filter ''user_id'' (Some userId) (from_table (get_prop body ''table'') (Select ?cols))"
  let ?q2 = "if truthy (get_prop body ''filters'')
             then fold (\<lambda>(key, value). eq_filter key (Some value))
                    (own_entries (get_prop body ''filters'')) ?q1
             else ?q1"
  have a: "q_action ?q2 = Select ?cols"
    by (simp add: fold_eq_filter eq_filter_def from_table_def)
  have t: "q_table ?q2 = get_prop body ''table''"
    by (simp add: fold_eq_filter eq_filter_def from_table_def)
  have f: "(''user_id'', Some userId) \<in> set (q_filters ?q2)"
    by (simp add: fold_eq_filter eq_filter_def from_table_def)
  have "j = JObj [(''result'', JArr (map (\<lambda>r. JObj (proj ?cols r))
          (filter (matches (q_filters ?q2)) (db (get_prop body ''table'')))))]"
    using assms(1-5) run_engine_select [OF a, of proj db] t
    by (simp add: db_proxy_def Let_def on_database_def engine_reply_def
        raised_def stringified_def)
  then have "row \<in> set (map (\<lambda>r. JObj (proj ?cols r))
          (filter (matches (q_filters ?q2)) (db (get_prop body ''table''))))"
    using assms(6) by simp
  then show ?thesis
    using f by (rule owned_rows [rotated])
qed

text \<open>The example values at work.\<close>

lemma post_simps:
  "req_method (post h j) \<noteq> ''OPTIONS''" "req_token (post h j) = h" "req_body (post h j) = Inr j"
  by (simp_all add: post_def)


lemma held_keys_fresh:
  "getRowndKeys 1000 net held_keys = (Inr rotated_keys, held_keys, [])"
  by (simp add: getRowndKeys_def held_keys_def rotated_keys_def JWKS_CACHE_DURATION_def)

lemma example_validates:
  "validateRowndToken example_runtime 1000 keys_endpoint held_keys ''token-42'' =
     (Inr (JStr ''user-42'', [(''sub'', JStr ''user-42'')]), held_keys,
      [VerifyToken ''token-42'', LibraryFetch])"
  by (simp add: validateRowndToken_def held_keys_fresh example_runtime_def subject_of_def
      verify_events_def)

lemma simplified_example_validates:
  "simplified_validateRowndToken example_runtime 1000 keys_endpoint held_local_keys
     (Some ''token-42'') =
     (Inr (JStr ''user-42'', [(''sub'', JStr ''user-42''), (''user_id'', JStr ''user-42'')]),
      held_local_keys, [VerifyToken ''token-42''])"
  by (simp add: simplified_validateRowndToken_def getJWKS_def held_local_keys_def
      example_runtime_def subject_of_def example_keys_def)


text \<open>
  The database proxy on the example table: a caller filter on another identity's
  \<^verbatim>\<open>user_id\<close> leaves no row, a filter on \<^verbatim>\<open>done\<close> leaves the caller's row.
\<close>

lemma db_proxy_select_example:
  "returned_rows ''result''
     (the_response
        (createRowndHandler (db_proxy (on_database (\<lambda>cols r. r) example_db example_client))
           \<lparr>corsOrigin = None, additionalHeaders = None\<rparr>
           example_runtime 1000 keys_endpoint held_local_keys
           (post (Some ''token-42'')
              (JObj [(''operation'', JStr ''select''), (''table'', JStr ''todos''),
                     (''filters'', JObj [(''user_id'', JStr ''user-99'')])])))) = [] \<and>
   returned_rows ''result''
     (the_response
        (createRowndHandler (db_proxy (on_database (\<lambda>cols r. r) example_db example_client))
           \<lparr>corsOrigin = None, additionalHeaders = None\<rparr>
           example_runtime 1000 keys_endpoint held_local_keys
           (post (Some ''token-42'')
              (JObj [(''operation'', JStr ''select''), (''table'', JStr ''todos''),
                     (''filters'', JObj [(''done'', JBool False)])])))) =
     [JObj [(''id'', JNum ''1''), (''user_id'', JStr ''user-42''), (''done'', JBool False)]]"
proof -
  have v: "simplified_validateRowndToken example_runtime 1000 keys_endpoint held_local_keys
     (req_token (post (Some ''token-42'') j)) =
     (Inr (JStr ''user-42'', [(''sub'', JStr ''user-42''), (''user_id'', JStr ''user-42'')]),
      held_local_keys, [VerifyToken ''token-42''])" for j
    by (simp add: post_simps simplified_example_validates)
  show ?thesis
    by (simp add: simplified_authenticated [OF post_simps(1) v] the_response_def)
      (simp add: db_proxy_def post_simps Let_def on_database_def run_engine_def eq_filter_def
        from_table_def example_db_def matches_def engine_reply_def raised_def stringified_def
        returned_rows_def json_response_def)
qed

















section \<open>The claims\<close>

subsection \<open>C1: the owner field of inserts, upserts and remote-procedure calls\<close>

text \<open>
  C1. For every authenticated request to the universal proxy, an insert and an upsert
  forward a record, and a remote-procedure call forwards arguments, whose \<^verbatim>\<open>user_id\<close> is
  the verified subject, whatever the caller put under \<^verbatim>\<open>data\<close> or \<^verbatim>\<open>args\<close> (a
  conflicting \<^verbatim>\<open>user_id\<close> included); that call is the only one made.
\<close>

theorem owner_field_forced:
  assumes "req_method req \<noteq> ''OPTIONS''"
    and "present (req_token req) = Some token"
    and "validateRowndToken rt now net c token = (Inr (userId, payload), c', ev)"
    and "req_body req = Inr body" and "body \<noteq> JNull"
  shows
    "(get_prop body ''resource'' = Some (JStr ''database'') \<and>
      get_prop body ''operation'' = Some (JStr ''insert'') \<longrightarrow>
        (\<exists>sent. the_calls (serve rt sb now net c req) =
            [DbCall (from_table (get_prop body ''table'') (Insert (JObj sent)))] \<and>
          map_of sent ''user_id'' = Some userId)) \<and>
     (get_prop body ''resource'' = Some (JStr ''database'') \<and>
      get_prop body ''operation'' = Some (JStr ''upsert'') \<longrightarrow>
        (\<exists>sent. the_calls (serve rt sb now net c req) =
            [DbCall (from_table (get_prop body ''table'') (Upsert (JObj sent)))] \<and>
          map_of sent ''user_id'' = Some userId)) \<and>
     (get_prop body ''resource'' = Some (JStr ''rpc'') \<longrightarrow>
        (\<exists>args. the_calls (serve rt sb now net c req) =
            [RpcCall (get_prop body ''functionName'') args] \<and>
          map_of args ''user_id'' = Some userId))"
proof (intro conjI impI)
  assume a: "get_prop body ''resource'' = Some (JStr ''database'') \<and>
      get_prop body ''operation'' = Some (JStr ''insert'')"
  have "the_calls (serve rt sb now net c req) =
      [DbCall (from_table (get_prop body ''table'')
         (Insert (JObj (with_user_id (get_prop body ''data'') userId))))]"
    using a assms
    by (simp add: serve_authenticated [OF assms(1-3)] route_database the_calls_def
        db_operation_def forward_query_def Let_def)
  then show "\<exists>sent. the_calls (serve rt sb now net c req) =
            [DbCall (from_table (get_prop body ''table'') (Insert (JObj sent)))] \<and>
          map_of sent ''user_id'' = Some userId"
    using with_user_id_owner by blast
next
  assume a: "get_prop body ''resource'' = Some (JStr ''database'') \<and>
      get_prop body ''operation'' = Some (JStr ''upsert'')"
  have "the_calls (serve rt sb now net c req) =
      [DbCall (from_table (get_prop body ''table'')
         (Upsert (JObj (with_user_id (get_prop body ''data'') userId))))]"
    using a assms
    by (simp add: serve_authenticated [OF assms(1-3)] route_database the_calls_def
        db_operation_def forward_query_def Let_def)
  then show "\<exists>sent. the_calls (serve rt sb now net c req) =
            [DbCall (from_table (get_prop body ''table'') (Upsert (JObj sent)))] \<and>
          map_of sent ''user_id'' = Some userId"
    using with_user_id_owner by blast
next
  assume a: "get_prop body ''resource'' = Some (JStr ''rpc'')"
  have "the_calls (serve rt sb now net c req) =
      [RpcCall (get_prop body ''functionName'') (with_user_id (get_prop body ''args'') userId)]"
    using a assms
    by (simp add: serve_authenticated [OF assms(1-3)] route_rpc the_calls_def
        rpc_operation_def Let_def)
  then show "\<exists>args. the_calls (serve rt sb now net c req) =
            [RpcCall (get_prop body ''functionName'') args] \<and>
          map_of args ''user_id'' = Some userId"
    using with_user_id_owner by blast
qed

text \<open>
  C1, witness: \<^verbatim>\<open>user-42\<close> inserts a record that names \<^verbatim>\<open>user-99\<close> as its owner; the
  record forwarded names \<^verbatim>\<open>user-42\<close>.
\<close>

theorem owner_field_forced_witness:
  "the_calls
     (serve example_runtime example_client 1000 keys_endpoint held_keys
        (post (Some ''token-42'')
           (JObj [(''resource'', JStr ''database''), (''operation'', JStr ''insert''),
                  (''table'', JStr ''todos''),
                  (''data'', JObj [(''user_id'', JStr ''user-99''), (''title'', JStr ''x'')])]))) =
     [DbCall (from_table (Some (JStr ''todos''))
        (Insert (JObj [(''user_id'', JStr ''user-42''), (''title'', JStr ''x'')])))]"
proof -
  let ?body = "JObj [(''resource'', JStr ''database''), (''operation'', JStr ''insert''),
                  (''table'', JStr ''todos''),
                  (''data'', JObj [(''user_id'', JStr ''user-99''), (''title'', JStr ''x'')])]"
  let ?out = "serve example_runtime example_client 1000 keys_endpoint held_keys
        (post (Some ''token-42'') ?body)"
  have t: "present (req_token (post (Some ''token-42'') ?body)) = Some ''token-42''"
    by (simp add: post_simps)
  have n: "?body \<noteq> JNull"
    by simp
  have "\<exists>sent. the_calls ?out =
            [DbCall (from_table (get_prop ?body ''table'') (Insert (JObj sent)))] \<and>
          map_of sent ''user_id'' = Some (JStr ''user-42'')"
    using owner_field_forced [OF post_simps(1) t example_validates post_simps(3) n,
        of example_client]
    by simp
  then obtain sent where c: "the_calls ?out =
            [DbCall (from_table (Some (JStr ''todos'')) (Insert (JObj sent)))]"
    by auto
  have "the_calls ?out =
     [DbCall (from_table (Some (JStr ''todos''))
        (Insert (JObj [(''user_id'', JStr ''user-42''), (''title'', JStr ''x'')])))]"
    by (simp add: serve_authenticated [OF post_simps(1) t example_validates] post_simps
        route_database the_calls_def db_operation_def forward_query_def Let_def with_user_id_def)
  then show ?thesis
    using c by simp
qed


subsection \<open>C2: a select returns rows of the caller only\<close>

text \<open>
  C2. For every authenticated select, with any columns and any filters, every row in
  the response comes from a row of the table whose \<^verbatim>\<open>user_id\<close> is the verified
  subject: in the universal proxy for every table (rows under \<^verbatim>\<open>data\<close>), in the
  database proxy for every table but \<^verbatim>\<open>public_tables\<close> (rows under \<^verbatim>\<open>result\<close>). The
  rows are those of the reference semantics of the data engine.
\<close>

theorem select_returns_own_rows:
  assumes "req_method req \<noteq> ''OPTIONS''"
    and "req_body req = Inr body" and "body \<noteq> JNull"
    and "get_prop body ''operation'' = Some (JStr ''select'')"
  shows
    "(present (req_token req) = Some token \<and>
      validateRowndToken rt now net c token = (Inr (userId, payload), c', ev) \<and>
      get_prop body ''resource'' = Some (JStr ''database'') \<longrightarrow>
        (\<forall>row \<in> set (returned_rows ''data''
                        (the_response (serve rt (on_database proj db sb) now net c req))).
           \<exists>r \<in> set (db (get_prop body ''table'')).
             map_of r ''user_id'' = Some userId \<and> (\<exists>cols. row = JObj (proj cols r)))) \<and>
     (simplified_validateRowndToken rt now net d (req_token req) = (Inr (userId, tp), d', ev) \<and>
      get_prop body ''table'' \<noteq> Some (JStr ''public_tables'') \<longrightarrow>
        (\<forall>row \<in> set (returned_rows ''result''
                        (the_response (createRowndHandler (db_proxy (on_database proj db sb))
                           options rt now net d req))).
           \<exists>r \<in> set (db (get_prop body ''table'')).
             map_of r ''user_id'' = Some userId \<and> (\<exists>cols. row = JObj (proj cols r))))"
proof (intro conjI impI ballI)
  fix row
  assume h: "present (req_token req) = Some token \<and>
      validateRowndToken rt now net c token = (Inr (userId, payload), c', ev) \<and>
      get_prop body ''resource'' = Some (JStr ''database'')"
  assume r: "row \<in> set (returned_rows ''data''
                        (the_response (serve rt (on_database proj db sb) now net c req)))"
  obtain res calls where o: "db_operation (on_database proj db sb) userId body = (res, calls)"
    by (cases "db_operation (on_database proj db sb) userId body")
  have s: "serve rt (on_database proj db sb) now net c req =
      (case res of Inl m \<Rightarrow> (error_response m, c', ev, calls)
       | Inr j \<Rightarrow> (json_response corsHeaders 200 j, c', ev, calls))"
    using h assms o
    by (simp add: serve_authenticated [OF assms(1), of token] route_database split: sum.splits)
  show "\<exists>r \<in> set (db (get_prop body ''table'')).
             map_of r ''user_id'' = Some userId \<and> (\<exists>cols. row = JObj (proj cols r))"
  proof (cases res)
    case (Inl m)
    then show ?thesis
      using r s
      by (simp add: the_response_def returned_rows_def error_response_def json_response_def)
  next
    case (Inr j)
    then have "row \<in> set (rows_of (get_prop j ''data''))"
      using r s by (simp add: the_response_def returned_rows_def json_response_def)
    then show ?thesis
      using universal_select_rows [OF assms(3,4)] o Inr by blast
  qed
next
  fix row
  assume h: "simplified_validateRowndToken rt now net d (req_token req) =
        (Inr (userId, tp), d', ev) \<and>
      get_prop body ''table'' \<noteq> Some (JStr ''public_tables'')"
  assume r: "row \<in> set (returned_rows ''result''
                        (the_response (createRowndHandler (db_proxy (on_database proj db sb))
                           options rt now net d req)))"
  obtain res calls where o: "db_proxy (on_database proj db sb) req userId tp = (res, calls)"
    by (cases "db_proxy (on_database proj db sb) req userId tp")
  have s: "createRowndHandler (db_proxy (on_database proj db sb)) options rt now net d req =
      (case res of
         Inl e \<Rightarrow> (json_response (handler_corsHeaders options) 400
                     (stringified [(''error'', message_of e)]), d', ev, calls)
       | Inr (AsResponse r) \<Rightarrow> (r, d', ev, calls)
       | Inr (AsValue v) \<Rightarrow> (json_response (handler_corsHeaders options) 200 v, d', ev, calls))"
    using h o by (simp add: simplified_authenticated [OF assms(1), of rt now net d userId tp d' ev]
        split: sum.splits)
  have nr: "res \<noteq> Inr (AsResponse x)" for x
    using o assms(2-4)
    by (auto simp: db_proxy_def Let_def split: option.splits)
  show "\<exists>r \<in> set (db (get_prop body ''table'')).
             map_of r ''user_id'' = Some userId \<and> (\<exists>cols. row = JObj (proj cols r))"
  proof (cases res)
    case (Inl e)
    then show ?thesis
      using r s
      by (cases "message_of e")
        (simp_all add: the_response_def returned_rows_def json_response_def stringified_def)
  next
    case (Inr v)
    then obtain j where j: "res = Inr (AsValue j)"
      using nr by (cases v) auto
    then have "row \<in> set (rows_of (get_prop j ''result''))"
      using r s by (simp add: the_response_def returned_rows_def json_response_def)
    then show ?thesis
      using db_proxy_select_rows [OF assms(2-4)] h o j by blast
  qed
qed

text \<open>
  C2, witness: the table holds a row of \<^verbatim>\<open>user-42\<close> and a row of \<^verbatim>\<open>user-99\<close>; the
  select of \<^verbatim>\<open>user-42\<close> returns the first alone, and with the filter
  \<^verbatim>\<open>user_id = user-99\<close> sent to the database proxy it returns no row.
\<close>

theorem select_returns_own_rows_witness:
  "returned_rows ''data''
     (the_response
        (serve example_runtime (on_database (\<lambda>cols r. r) example_db example_client) 1000
           keys_endpoint held_keys
           (post (Some ''token-42'')
              (JObj [(''resource'', JStr ''database''), (''operation'', JStr ''select''),
                     (''table'', JStr ''todos''), (''query'', JObj [])])))) =
     [JObj [(''id'', JNum ''1''), (''user_id'', JStr ''user-42''), (''done'', JBool False)]] \<and>
   (\<exists>r \<in> set (example_db (Some (JStr ''todos''))). map_of r ''user_id'' = Some (JStr ''user-42'') \<and>
      JObj [(''id'', JNum ''1''), (''user_id'', JStr ''user-42''), (''done'', JBool False)] = JObj r) \<and>
   returned_rows ''result''
     (the_response
        (createRowndHandler (db_proxy (on_database (\<lambda>cols r. r) example_db example_client))
           \<lparr>corsOrigin = None, additionalHeaders = None\<rparr>
           example_runtime 1000 keys_endpoint held_local_keys
           (post (Some ''token-42'')
              (JObj [(''operation'', JStr ''select''), (''table'', JStr ''todos''),
                     (''filters'', JObj [(''user_id'', JStr ''user-99'')])])))) = []"
proof -
  let ?body = "JObj [(''resource'', JStr ''database''), (''operation'', JStr ''select''),
                     (''table'', JStr ''todos''), (''query'', JObj [])]"
  let ?sb = "on_database (\<lambda>cols r. r) example_db example_client"
  let ?out = "serve example_runtime ?sb 1000 keys_endpoint held_keys
                (post (Some ''token-42'') ?body)"
  let ?row = "JObj [(''id'', JNum ''1''), (''user_id'', JStr ''user-42''), (''done'', JBool False)]"
  have t: "present (req_token (post (Some ''token-42'') ?body)) = Some ''token-42''"
    by (simp add: post_simps)
  have n: "?body \<noteq> JNull"
    by simp
  have o: "get_prop ?body ''operation'' = Some (JStr ''select'')"
    by simp
  have rows: "returned_rows ''data'' (the_response ?out) = [?row]"
    by (simp add: serve_authenticated [OF post_simps(1) t example_validates] post_simps
        route_database the_response_def)
      (simp add: db_operation_def forward_query_def Let_def on_database_def run_engine_def
        eq_filter_def from_table_def example_db_def matches_def engine_reply_def
        returned_rows_def json_response_def)
  have "\<forall>row \<in> set (returned_rows ''data'' (the_response ?out)).
           \<exists>r \<in> set (example_db (get_prop ?body ''table'')).
             map_of r ''user_id'' = Some (JStr ''user-42'') \<and> (\<exists>cols. row = JObj r)"
    using select_returns_own_rows [where req = "post (Some ''token-42'') ?body"
        and body = ?body and token = "''token-42''" and rt = example_runtime and now = 1000
        and net = keys_endpoint and c = held_keys and userId = "JStr ''user-42''"
        and payload = "[(''sub'', JStr ''user-42'')]" and c' = held_keys
        and ev = "[VerifyToken ''token-42'', LibraryFetch]" and proj = "\<lambda>cols r. r" and db = example_db
        and sb = example_client, OF post_simps(1) post_simps(3) n o]
      t example_validates
    by simp
  then show ?thesis
    using rows db_proxy_select_example by simp
qed

subsection \<open>C3: an update or delete aimed at a row of another identity\<close>

text \<open>
  C3, as stated, fails: the database proxy answers a delete with
  \<^verbatim>\<open>{ result: { success: true } }\<close>, which carries no affected count. Here \<^verbatim>\<open>user-42\<close>
  deletes row 7, a row of \<^verbatim>\<open>user-99\<close>.
\<close>

theorem foreign_row_count_counterexample:
  "createRowndHandler (db_proxy (on_database (\<lambda>cols r. r) example_db example_client))
     \<lparr>corsOrigin = None, additionalHeaders = None\<rparr>
     example_runtime 1000 keys_endpoint held_local_keys
     (post (Some ''token-42'')
        (JObj [(''operation'', JStr ''delete''), (''table'', JStr ''todos''),
               (''id'', JNum ''7'')])) =
     (json_response
        (handler_corsHeaders \<lparr>corsOrigin = None, additionalHeaders = None\<rparr>) 200
        (JObj [(''result'', JObj [(''success'', JBool True)])]),
      held_local_keys, [VerifyToken ''token-42''],
      [DbCall \<lparr>q_table = Some (JStr ''todos''), q_action = Delete,
               q_filters = [(''id'', Some (JNum ''7'')), (''user_id'', Some (JStr ''user-42''))],
               q_returning = False\<rparr>])"
proof -
  let ?req = "post (Some ''token-42'')
        (JObj [(''operation'', JStr ''delete''), (''table'', JStr ''todos''),
               (''id'', JNum ''7'')])"
  have v: "simplified_validateRowndToken example_runtime 1000 keys_endpoint held_local_keys
     (req_token ?req) =
     (Inr (JStr ''user-42'', [(''sub'', JStr ''user-42''), (''user_id'', JStr ''user-42'')]),
      held_local_keys, [VerifyToken ''token-42''])"
    by (simp add: post_simps simplified_example_validates)
  show ?thesis
    by (simp add: simplified_authenticated [OF post_simps(1) v])
      (simp add: db_proxy_def post_simps Let_def on_database_def run_engine_def eq_filter_def
        from_table_def example_db_def matches_def engine_reply_def raised_def)
qed

text \<open>
  C3, amended. For every authenticated update or delete whose \<^verbatim>\<open>id\<close> is held only by
  rows of other identities, the query forwarded leaves the database as it was and the
  response is a success (status 200, no error). The universal proxy answers with the
  data engine's result as it came; the database proxy answers an update with the
  empty list of updated rows and a delete with \<^verbatim>\<open>{ success: true }\<close>. The database is
  that of the reference semantics of the data engine.
\<close>

theorem foreign_row_untouched:
  assumes "req_method req \<noteq> ''OPTIONS''"
    and "req_body req = Inr body" and "body \<noteq> JNull"
    and "get_prop body ''operation'' = Some (JStr op)"
    and "op = ''update'' \<or> op = ''delete''"
    and "\<forall>r \<in> set (db (get_prop body ''table'')).
           map_of r ''id'' = get_prop body ''id'' \<longrightarrow> map_of r ''user_id'' \<noteq> Some userId"
  shows
    "(present (req_token req) = Some token \<and>
      validateRowndToken rt now net c token = (Inr (userId, payload), c', ev) \<and>
      get_prop body ''resource'' = Some (JStr ''database'') \<longrightarrow>
        the_response (serve rt (on_database proj db sb) now net c req) =
          json_response corsHeaders 200 (JObj (engine_reply JNull)) \<and>
        after_calls proj db (the_calls (serve rt (on_database proj db sb) now net c req)) = db) \<and>
     (simplified_validateRowndToken rt now net d (req_token req) = (Inr (userId, tp), d', ev) \<longrightarrow>
        the_response (createRowndHandler (db_proxy (on_database proj db sb))
                        options rt now net d req) =
          json_response (handler_corsHeaders options) 200
            (JObj [(''result'',
                    if op = ''update'' then JArr [] else JObj [(''success'', JBool True)])]) \<and>
        after_calls proj db
          (the_calls (createRowndHandler (db_proxy (on_database proj db sb))
                        options rt now net d req)) = db)"
proof (intro conjI impI)
  let ?t = "get_prop body ''table''"
  let ?i = "get_prop body ''id''"
  let ?qu = "\<lambda>a. eq_filter ''id'' ?i (eq_filter ''user_id'' (Some userId) (from_table ?t a))"
  let ?qd = "\<lambda>a. eq_filter ''user_id'' (Some userId) (eq_filter ''id'' ?i (from_table ?t a))"
  have eu: "run_engine proj db (?qu a) = (engine_reply JNull, db)"
    if "a = Update v \<or> a = Delete" for a v
    using that not_owned_no_match(1) [OF assms(6)]
      run_engine_no_match [of "?qu a" v db proj]
    by (simp add: eq_filter_def from_table_def)
  have ed: "run_engine proj db (returning (?qd (Update v))) = (engine_reply (JArr []), db)" for v
    using not_owned_no_match(2) [OF assms(6)]
      run_engine_no_match [of "returning (?qd (Update v))" v db proj]
    by (simp add: eq_filter_def from_table_def returning_def)
  have edd: "run_engine proj db (?qd Delete) = (engine_reply JNull, db)"
    using not_owned_no_match(2) [OF assms(6)]
      run_engine_no_match [of "?qd Delete" None db proj]
    by (simp add: eq_filter_def from_table_def)
  {
    assume h: "present (req_token req) = Some token \<and>
      validateRowndToken rt now net c token = (Inr (userId, payload), c', ev) \<and>
      get_prop body ''resource'' = Some (JStr ''database'')"
    have s: "serve rt (on_database proj db sb) now net c req =
        (json_response corsHeaders 200 (JObj (engine_reply JNull)), c', ev,
         [DbCall (?qu (if op = ''update'' then Update (get_prop body ''data'') else Delete))])"
      using h assms(2-5) eu
      by (auto simp: serve_authenticated [OF assms(1), of token] route_database
          db_operation_def Let_def forward_query_def on_database_def)
    show "the_response (serve rt (on_database proj db sb) now net c req) =
          json_response corsHeaders 200 (JObj (engine_reply JNull))"
      by (simp add: s the_response_def)
    show "after_calls proj db (the_calls (serve rt (on_database proj db sb) now net c req)) = db"
      using eu by (simp add: s the_calls_def after_calls_def)
  }
  {
    assume h: "simplified_validateRowndToken rt now net d (req_token req) =
        (Inr (userId, tp), d', ev)"
    let ?out = "createRowndHandler (db_proxy (on_database proj db sb)) options rt now net d req"
    have s: "?out =
        (json_response (handler_corsHeaders options) 200
            (JObj [(''result'',
                    if op = ''update'' then JArr [] else JObj [(''success'', JBool True)])]),
         d', ev,
         [DbCall (if op = ''update'' then returning (?qd (Update (get_prop body ''values'')))
                  else ?qd Delete)])"
      using assms(2-5) ed edd
      by (auto simp: simplified_authenticated [OF assms(1) h] db_proxy_def Let_def
          on_database_def engine_reply_def raised_def stringified_def)
    show "the_response ?out =
          json_response (handler_corsHeaders options) 200
            (JObj [(''result'',
                    if op = ''update'' then JArr [] else JObj [(''success'', JBool True)])])"
      by (simp add: s the_response_def)
    show "after_calls proj db (the_calls ?out) = db"
      using ed edd by (simp add: s the_calls_def after_calls_def)
  }
qed

text \<open>
  C3, witness: \<^verbatim>\<open>user-42\<close> updates row 7, a row of \<^verbatim>\<open>user-99\<close>, through the universal
  proxy; the table is left as it was.
\<close>

theorem foreign_row_untouched_witness:
  "the_response
     (serve example_runtime (on_database (\<lambda>cols r. r) example_db example_client) 1000
        keys_endpoint held_keys
        (post (Some ''token-42'')
           (JObj [(''resource'', JStr ''database''), (''operation'', JStr ''update''),
                  (''table'', JStr ''todos''), (''id'', JNum ''7''),
                  (''data'', JObj [(''done'', JBool False)])]))) =
     json_response corsHeaders 200 (JObj (engine_reply JNull)) \<and>
   after_calls (\<lambda>cols r. r) example_db
     (the_calls
        (serve example_runtime (on_database (\<lambda>cols r. r) example_db example_client) 1000
           keys_endpoint held_keys
           (post (Some ''token-42'')
              (JObj [(''resource'', JStr ''database''), (''operation'', JStr ''update''),
                     (''table'', JStr ''todos''), (''id'', JNum ''7''),
                     (''data'', JObj [(''done'', JBool False)])])))) = example_db \<and>
   (\<exists>r \<in> set (example_db (Some (JStr ''todos''))). map_of r ''id'' = Some (JNum ''7''))"
proof -
  let ?body = "JObj [(''resource'', JStr ''database''), (''operation'', JStr ''update''),
                  (''table'', JStr ''todos''), (''id'', JNum ''7''),
                  (''data'', JObj [(''done'', JBool False)])]"
  have o: "get_prop ?body ''operation'' = Some (JStr ''update'')"
    by simp
  have f: "\<forall>r \<in> set (example_db (get_prop ?body ''table'')).
           map_of r ''id'' = get_prop ?body ''id'' \<longrightarrow>
           map_of r ''user_id'' \<noteq> Some (JStr ''user-42'')"
    by (simp add: example_db_def)
  have e: "\<exists>r \<in> set (example_db (Some (JStr ''todos''))). map_of r ''id'' = Some (JNum ''7'')"
    by (simp add: example_db_def)
  have n: "?body \<noteq> JNull"
    by simp
  have u: "''update'' = ''update'' \<or> ''update'' = ''delete''"
    by simp
  show ?thesis
    using foreign_row_untouched [where db = example_db and body = ?body and op = "''update''"
        and userId = "JStr ''user-42''" and token = "''token-42''" and rt = example_runtime
        and now = 1000 and net = keys_endpoint and c = held_keys
        and payload = "[(''sub'', JStr ''user-42'')]" and c' = held_keys
        and ev = "[VerifyToken ''token-42'', LibraryFetch]" and proj = "\<lambda>cols r. r" and sb = example_client,
        OF post_simps(1) post_simps(3) n o u f]
      example_validates e
    by (simp add: post_simps)
qed


subsection \<open>C4: storage paths under the caller's prefix\<close>




subsection \<open>C6: a failed key-set fetch\<close>

text \<open>
  C6, as stated, fails: with a key set held past its freshness window and a fetch
  that fails, both key caches fail the request rather than return the set they hold.
\<close>

theorem stale_keys_counterexample:
  "getRowndKeys 4000000
     (Resolved (HttpResponse False ''Service Unavailable'' (Inl ''Unexpected end of JSON input'')))
     held_keys =
     (Inl ''Failed to fetch Rownd JWKS: Service Unavailable'', held_keys, [FetchKeys]) \<and>
   getJWKS example_runtime 4000000 (Rejected ''error sending request'') held_local_keys =
     (Inl ''error sending request'', held_local_keys, [FetchKeys])"
  by (simp add: getRowndKeys_def getJWKS_def JWKS_CACHE_DURATION_def held_keys_def
      held_local_keys_def rotated_keys_def)

text \<open>
  C6, amended. When the key-set fetch fails and no key set is held within its
  freshness window, \<^verbatim>\<open>getRowndKeys\<close> and \<^verbatim>\<open>getJWKS\<close> fail the request with the error
  of the fetch, after that one request, and leave the cache as it was, whether or not
  it holds an older key set. For \<^verbatim>\<open>getRowndKeys\<close> a fetch fails when the request is
  rejected, when the response is not ok (the error is \<^verbatim>\<open>Failed to fetch Rownd JWKS: \<close>
  and the status text) and when the body of an ok response is not JSON. For
  \<^verbatim>\<open>getJWKS\<close> a fetch fails when the request is rejected, when the body is not JSON
  and when the library refuses the document; \<^verbatim>\<open>getJWKS\<close> does not look at the status
  of the response, so a response that is not ok and carries a document the library
  accepts is not a failed fetch: the document is returned and cached for 30 minutes.
  A key set held within its freshness window is returned by both, without a fetch
  and with the cache as it was.
\<close>

theorem fetch_failure_fails:
  "(\<not> (truthy (jwksCache c) \<and> now - jwksCacheTime c < JWKS_CACHE_DURATION) \<longrightarrow>
      getRowndKeys now (Rejected m) c = (Inl m, c, [FetchKeys]) \<and>
      (\<not> ok r \<longrightarrow>
         getRowndKeys now (Resolved r) c =
           (Inl (''Failed to fetch Rownd JWKS: '' @ statusText r), c, [FetchKeys])) \<and>
      (ok r \<and> json_body r = Inl m \<longrightarrow>
         getRowndKeys now (Resolved r) c = (Inl m, c, [FetchKeys]))) \<and>
   (\<not> (local_jwks d \<noteq> None \<and> now < cacheExpiry d) \<longrightarrow>
      getJWKS rt now (Rejected m) d = (Inl m, d, [FetchKeys]) \<and>
      (json_body r = Inl m \<longrightarrow> getJWKS rt now (Resolved r) d = (Inl m, d, [FetchKeys])) \<and>
      (json_body r = Inr j \<and> createLocalJWKSet rt j = Some m \<longrightarrow>
         getJWKS rt now (Resolved r) d = (Inl m, d, [FetchKeys])) \<and>
      (json_body r = Inr j \<and> createLocalJWKSet rt j = None \<longrightarrow>
         getJWKS rt now (Resolved r) d =
           (Inr j, \<lparr>local_jwks = Some j, cacheExpiry = now + 1800000\<rparr>, [FetchKeys]))) \<and>
   (jwksCache c = Some held \<and> truthy (Some held) \<and>
    now - jwksCacheTime c < JWKS_CACHE_DURATION \<longrightarrow>
      getRowndKeys now net c = (Inr held, c, [])) \<and>
   (local_jwks d = Some held \<and> now < cacheExpiry d \<longrightarrow>
      getJWKS rt now net d = (Inr held, d, []))"
proof -
  have universal:
    "getRowndKeys now (Rejected m) c = (Inl m, c, [FetchKeys]) \<and>
      (\<not> ok r \<longrightarrow>
         getRowndKeys now (Resolved r) c =
           (Inl (''Failed to fetch Rownd JWKS: '' @ statusText r), c, [FetchKeys])) \<and>
      (ok r \<and> json_body r = Inl m \<longrightarrow>
         getRowndKeys now (Resolved r) c = (Inl m, c, [FetchKeys]))"
    if "\<not> (truthy (jwksCache c) \<and> now - jwksCacheTime c < JWKS_CACHE_DURATION)"
  proof -
    have "(if truthy (jwksCache c) \<and> now - jwksCacheTime c < JWKS_CACHE_DURATION
           then jwksCache c else None) = None"
      using that by auto
    then show ?thesis
      by (simp add: getRowndKeys_def)
  qed
  have simplified:
    "getJWKS rt now (Rejected m) d = (Inl m, d, [FetchKeys]) \<and>
      (json_body r = Inl m \<longrightarrow> getJWKS rt now (Resolved r) d = (Inl m, d, [FetchKeys])) \<and>
      (json_body r = Inr j \<and> createLocalJWKSet rt j = Some m \<longrightarrow>
         getJWKS rt now (Resolved r) d = (Inl m, d, [FetchKeys])) \<and>
      (json_body r = Inr j \<and> createLocalJWKSet rt j = None \<longrightarrow>
         getJWKS rt now (Resolved r) d =
           (Inr j, \<lparr>local_jwks = Some j, cacheExpiry = now + 1800000\<rparr>, [FetchKeys]))"
    if "\<not> (local_jwks d \<noteq> None \<and> now < cacheExpiry d)"
  proof -
    have "(if now < cacheExpiry d then local_jwks d else None) = None"
      using that by auto
    then show ?thesis
      by (simp add: getJWKS_def)
  qed
  have served: "getRowndKeys now net c = (Inr held, c, [])"
    if "jwksCache c = Some held \<and> truthy (Some held) \<and>
        now - jwksCacheTime c < JWKS_CACHE_DURATION"
    using that by (simp add: getRowndKeys_def)
  have served_local: "getJWKS rt now net d = (Inr held, d, [])"
    if "local_jwks d = Some held \<and> now < cacheExpiry d"
    using that by (simp add: getJWKS_def)
  show ?thesis
    using universal simplified served served_local by blast
qed

text \<open>
  C6, witness: the two caches and a failing fetch, past the window (the request
  fails) and within it (the held set is returned, nothing is fetched); and \<^verbatim>\<open>getJWKS\<close>
  past the window on a response that is not ok and carries a key-set document, which
  it caches.
\<close>

theorem fetch_failure_fails_witness:
  "getRowndKeys 4000000 (Rejected ''error sending request'') held_keys =
     (Inl ''error sending request'', held_keys, [FetchKeys]) \<and>
   getRowndKeys 1000 (Rejected ''error sending request'') held_keys =
     (Inr rotated_keys, held_keys, []) \<and>
   getJWKS example_runtime 1000 (Rejected ''error sending request'') held_local_keys =
     (Inr example_keys, held_local_keys, []) \<and>
   getJWKS example_runtime 4000000
     (Resolved (HttpResponse False ''Service Unavailable'' (Inr example_keys))) held_local_keys =
     (Inr example_keys, \<lparr>local_jwks = Some example_keys, cacheExpiry = 5800000\<rparr>, [FetchKeys])"
proof -
  let ?r = "HttpResponse False ''Service Unavailable'' (Inr example_keys)"
  have k: "createLocalJWKSet example_runtime example_keys = None"
    by (simp add: example_runtime_def example_keys_def)
  have past: "getRowndKeys 4000000 (Rejected ''error sending request'') held_keys =
       (Inl ''error sending request'', held_keys, [FetchKeys]) \<and>
     getJWKS example_runtime 4000000 (Resolved ?r) held_local_keys =
       (Inr example_keys, \<lparr>local_jwks = Some example_keys, cacheExpiry = 5800000\<rparr>,
        [FetchKeys])"
    using fetch_failure_fails [where c = held_keys and now = 4000000
        and m = "''error sending request''" and r = ?r
        and d = held_local_keys and rt = example_runtime and held = rotated_keys
        and net = "Rejected ''error sending request''" and j = example_keys] k
    by (simp add: JWKS_CACHE_DURATION_def held_keys_def held_local_keys_def rotated_keys_def)
  have within: "getRowndKeys 1000 (Rejected ''error sending request'') held_keys =
       (Inr rotated_keys, held_keys, []) \<and>
     getJWKS example_runtime 1000 (Rejected ''error sending request'') held_local_keys =
       (Inr example_keys, held_local_keys, [])"
    using fetch_failure_fails [where c = held_keys and now = 1000
        and m = "''error sending request''" and r = ?r
        and d = held_local_keys and rt = example_runtime and held = rotated_keys
        and net = "Rejected ''error sending request''" and j = example_keys]
      fetch_failure_fails [where c = held_keys and now = 1000
        and m = "''error sending request''" and r = ?r
        and d = held_local_keys and rt = example_runtime and held = example_keys
        and net = "Rejected ''error sending request''" and j = example_keys]
    by (simp add: JWKS_CACHE_DURATION_def held_keys_def held_local_keys_def rotated_keys_def)
  show ?thesis
    using past within by simp
qed


subsection \<open>C7: a request without the token header\<close>

text \<open>
  C7. A request other than OPTIONS whose \<^verbatim>\<open>X-Rownd-Token\<close> header is absent or empty
  is answered with the error \<^verbatim>\<open>Missing X-Rownd-Token header\<close>, before the verifier
  and without a call into the data engine: with status 401 by the universal proxy
  and the edge wrapper, and with status 400 by \<^verbatim>\<open>createRowndHandler\<close>.
\<close>

theorem missing_token_responses:
  assumes "req_method req \<noteq> ''OPTIONS''" and "present (req_token req) = None"
  shows
    "serve rt sb now net c req =
       (json_response corsHeaders 401 (JObj [(''error'', JStr ''Missing X-Rownd-Token header'')]),
        c, [], []) \<and>
     edge_serve edge_handler rt now e req =
       (json_response corsHeaders 401 (JObj [(''error'', JStr ''Missing X-Rownd-Token header'')]),
        e, [], []) \<and>
     createRowndHandler handler options rt now net d req =
       (json_response (handler_corsHeaders options) 400
          (JObj [(''error'', JStr ''Missing X-Rownd-Token header'')]),
        d, [], [])"
proof (intro conjI)
  show "serve rt sb now net c req =
       (json_response corsHeaders 401 (JObj [(''error'', JStr ''Missing X-Rownd-Token header'')]),
        c, [], [])"
    using assms by (simp add: serve_def)
  show "edge_serve edge_handler rt now e req =
       (json_response corsHeaders 401 (JObj [(''error'', JStr ''Missing X-Rownd-Token header'')]),
        e, [], [])"
    using assms by (simp add: edge_serve_def)
  have "simplified_validateRowndToken rt now net d (req_token req) =
      (Inl ''Missing X-Rownd-Token header'', d, [])"
    using assms(2) by (simp add: simplified_validateRowndToken_def)
  then show "createRowndHandler handler options rt now net d req =
       (json_response (handler_corsHeaders options) 400
          (JObj [(''error'', JStr ''Missing X-Rownd-Token header'')]),
        d, [], [])"
    using assms(1) by (simp add: createRowndHandler_def)
qed

text \<open>
  C7, at the failing input: a select sent to the database proxy without the header
  is answered with status 400; the universal proxy answers the like with 401.
\<close>

theorem missing_token_responses_witness:
  "resp_status (the_response
     (createRowndHandler (db_proxy example_client) \<lparr>corsOrigin = None, additionalHeaders = None\<rparr>
        example_runtime 1000 keys_endpoint held_local_keys
        (post None (JObj [(''operation'', JStr ''select''), (''table'', JStr ''todos'')])))) = 400 \<and>
   resp_status (the_response
     (serve example_runtime example_client 1000 keys_endpoint held_keys
        (post None (JObj [(''resource'', JStr ''health'')])))) = 401"
proof -
  have p: "present (req_token (post None j)) = None" for j
    by (simp add: post_simps)
  show ?thesis
    using missing_token_responses [OF post_simps(1) p,
        of example_runtime example_client 1000 keys_endpoint held_keys _
           "\<lambda>r u p. (Inl [], [])" "\<lparr>edge_held = False, edge_jwksCacheTime = 0\<rparr>"
           "db_proxy example_client" "\<lparr>corsOrigin = None, additionalHeaders = None\<rparr>"
           held_local_keys]
    by (simp add: the_response_def json_response_def)
qed


subsection \<open>C8: a resource or operation that is not supported\<close>




subsection \<open>C9: the query a select forwards\<close>

text \<open>
  C9. The universal proxy forwards a select with the columns of \<^verbatim>\<open>query.select\<close>
  (\<^verbatim>\<open>*\<close> by default) and the subject filter alone: nothing the caller put under
  \<^verbatim>\<open>query.filters\<close> is applied. The database proxy forwards the requested columns,
  the subject filter (for every table but \<^verbatim>\<open>public_tables\<close>) and then every caller
  filter.
\<close>

theorem select_query_forwarded:
  assumes "req_method req \<noteq> ''OPTIONS''"
    and "req_body req = Inr body" and "body \<noteq> JNull"
    and "get_prop body ''operation'' = Some (JStr ''select'')"
  shows
    "(present (req_token req) = Some token \<and>
      validateRowndToken rt now net c token = (Inr (userId, payload), c', ev) \<and>
      get_prop body ''resource'' = Some (JStr ''database'') \<and>
      get_prop body ''query'' = Some query \<and> query \<noteq> JNull \<longrightarrow>
        the_calls (serve rt sb now net c req) =
          [DbCall \<lparr>q_table = get_prop body ''table'',
                   q_action = Select (js_or (get_prop query ''select'') (JStr ''*'')),
                   q_filters = [(''user_id'', Some userId)], q_returning = False\<rparr>]) \<and>
     (simplified_validateRowndToken rt now net d (req_token req) = (Inr (userId, tp), d', ev) \<longrightarrow>
        the_calls (createRowndHandler (db_proxy sb) options rt now net d req) =
          [DbCall \<lparr>q_table = get_prop body ''table'',
                   q_action = Select (js_or (get_prop body ''columns'') (JStr ''*'')),
                   q_filters =
                     (if get_prop body ''table'' \<noteq> Some (JStr ''public_tables'')
                      then [(''user_id'', Some userId)] else []) @
                     (if truthy (get_prop body ''filters'')
                      then map (\<lambda>(key, value). (key, Some value))
                             (own_entries (get_prop body ''filters''))
                      else []),
                   q_returning = False\<rparr>])"
proof (intro conjI impI)
  assume h: "present (req_token req) = Some token \<and>
      validateRowndToken rt now net c token = (Inr (userId, payload), c', ev) \<and>
      get_prop body ''resource'' = Some (JStr ''database'') \<and>
      get_prop body ''query'' = Some query \<and> query \<noteq> JNull"
  have "read_prop (Some query) ''select'' = Inr (get_prop query ''select'')"
    using h by (cases query) simp_all
  then show "the_calls (serve rt sb now net c req) =
          [DbCall \<lparr>q_table = get_prop body ''table'',
                   q_action = Select (js_or (get_prop query ''select'') (JStr ''*'')),
                   q_filters = [(''user_id'', Some userId)], q_returning = False\<rparr>]"
    using h assms(2-4)
    by (simp add: serve_authenticated [OF assms(1), of token] the_calls_def route_database
        db_operation_def forward_query_def Let_def from_table_def eq_filter_def)
next
  assume h: "simplified_validateRowndToken rt now net d (req_token req) =
      (Inr (userId, tp), d', ev)"
  show "the_calls (createRowndHandler (db_proxy sb) options rt now net d req) =
          [DbCall \<lparr>q_table = get_prop body ''table'',
                   q_action = Select (js_or (get_prop body ''columns'') (JStr ''*'')),
                   q_filters =
                     (if get_prop body ''table'' \<noteq> Some (JStr ''public_tables'')
                      then [(''user_id'', Some userId)] else []) @
                     (if truthy (get_prop body ''filters'')
                      then map (\<lambda>(key, value). (key, Some value))
                             (own_entries (get_prop body ''filters''))
                      else []),
                   q_returning = False\<rparr>]"
    using assms(2-4)
    by (simp add: simplified_authenticated [OF assms(1) h] the_calls_def db_proxy_def Let_def
        fold_eq_filter eq_filter_def from_table_def split: option.splits)
qed

text \<open>
  C9, at the failing input: a select with the filter \<^verbatim>\<open>done = true\<close> is forwarded by
  the universal proxy with the subject filter only.
\<close>

theorem select_query_forwarded_witness:
  "the_calls (serve example_runtime example_client 1000 keys_endpoint held_keys
      (post (Some ''token-42'')
         (JObj [(''resource'', JStr ''database''), (''operation'', JStr ''select''),
                (''table'', JStr ''todos''),
                (''query'', JObj [(''select'', JStr ''*''),
                                  (''filters'', JObj [(''done'', JBool True)])])]))) =
     [DbCall \<lparr>q_table = Some (JStr ''todos''), q_action = Select (JStr ''*''),
              q_filters = [(''user_id'', Some (JStr ''user-42''))], q_returning = False\<rparr>]"
proof -
  let ?q = "JObj [(''select'', JStr ''*''), (''filters'', JObj [(''done'', JBool True)])]"
  let ?body = "JObj [(''resource'', JStr ''database''), (''operation'', JStr ''select''),
                (''table'', JStr ''todos''), (''query'', ?q)]"
  have t: "present (req_token (post (Some ''token-42'') ?body)) = Some ''token-42''"
    by (simp add: post_simps)
  have n: "?body \<noteq> JNull"
    by simp
  have o: "get_prop ?body ''operation'' = Some (JStr ''select'')"
    by simp
  show ?thesis
    using select_query_forwarded [where req = "post (Some ''token-42'') ?body"
        and body = ?body and token = "''token-42''" and rt = example_runtime and now = 1000
        and net = keys_endpoint and c = held_keys and userId = "JStr ''user-42''"
        and payload = "[(''sub'', JStr ''user-42'')]" and c' = held_keys
        and ev = "[VerifyToken ''token-42'', LibraryFetch]" and query = ?q and sb = example_client,
        OF post_simps(1) post_simps(3) n o]
      t example_validates
    by simp
qed

subsection \<open>C10: an insert sent by the client wrapper\<close>

text \<open>
  C10, as stated, fails in the cause it gives: the wrapper does not put the values of
  an insert under \<^verbatim>\<open>query\<close>, nor anywhere else in its request. Here the wrapper sends
  the insert of \<^verbatim>\<open>{ title: 'x' }\<close> into \<^verbatim>\<open>todos\<close>, on a query builder that has none of
  the four properties \<^verbatim>\<open>serializeQuery\<close> reads; \<^verbatim>\<open>query\<close> holds the defaults of
  \<^verbatim>\<open>serializeQuery\<close> and the request is the one an insert of other values gives.
\<close>

theorem wrapper_request_counterexample:
  "req_body (client_request example_builder ''token-42'' ''insert''
               [JObj [(''title'', JStr ''x'')]] ''todos'') =
     Inr (JObj [(''resource'', JStr ''database''), (''operation'', JStr ''insert''),
                (''table'', JStr ''todos''),
                (''query'', JObj [(''filters'', JObj []), (''select'', JStr ''*''),
                                  (''order'', JArr [])])]) \<and>
   client_request example_builder ''token-42'' ''insert'' [JObj [(''title'', JStr ''x'')]] ''todos'' =
   client_request example_builder ''token-42'' ''insert'' [JObj [(''title'', JStr ''y'')]] ''todos''"
  by (simp add: client_request_def example_builder_def serializeQuery_def stringified_def)

text \<open>
  C10, amended. For every insert the client wrapper sends and the universal proxy
  authenticates, the record forwarded to the data engine is \<^verbatim>\<open>{ user_id: userId }\<close>
  and nothing more. The wrapper's request carries \<^verbatim>\<open>resource\<close>, \<^verbatim>\<open>operation\<close>, \<^verbatim>\<open>table\<close>
  and \<^verbatim>\<open>query\<close>, where \<^verbatim>\<open>query\<close> holds what \<^verbatim>\<open>serializeQuery\<close> reads off the query: its
  \<^verbatim>\<open>_filters\<close>, \<^verbatim>\<open>_select\<close>, \<^verbatim>\<open>_order\<close> (or their defaults) and \<^verbatim>\<open>_limit\<close>; it has no
  \<^verbatim>\<open>data\<close>, and \<^verbatim>\<open>data\<close> is what the proxy spreads into the record.
\<close>

theorem wrapper_insert_forwards_owner_only:
  assumes "token \<noteq> []"
    and "validateRowndToken rt now net c token = (Inr (userId, payload), c', ev)"
    and "query = qbTarget ''insert'' args"
  shows
    "req_body (client_request qbTarget token ''insert'' args table) =
       Inr (JObj [(''resource'', JStr ''database''), (''operation'', JStr ''insert''),
                  (''table'', JStr table),
                  (''query'',
                   stringified
                     [(''filters'', Some (js_or (qs_filters query) (JObj []))),
                      (''select'', Some (js_or (qs_select query) (JStr ''*''))),
                      (''order'', Some (js_or (qs_order query) (JArr []))),
                      (''limit'', qs_limit query)])]) \<and>
     the_calls (serve rt sb now net c (client_request qbTarget token ''insert'' args table)) =
       [DbCall \<lparr>q_table = Some (JStr table), q_action = Insert (JObj [(''user_id'', userId)]),
                q_filters = [], q_returning = False\<rparr>]"
proof
  let ?req = "client_request qbTarget token ''insert'' args table"
  show "req_body ?req =
       Inr (JObj [(''resource'', JStr ''database''), (''operation'', JStr ''insert''),
                  (''table'', JStr table),
                  (''query'',
                   stringified
                     [(''filters'', Some (js_or (qs_filters query) (JObj []))),
                      (''select'', Some (js_or (qs_select query) (JStr ''*''))),
                      (''order'', Some (js_or (qs_order query) (JArr []))),
                      (''limit'', qs_limit query)])])"
    using assms(3) by (simp add: client_request_def serializeQuery_def Let_def)
  have m: "req_method ?req \<noteq> ''OPTIONS''"
    by (simp add: client_request_def Let_def)
  have t: "present (req_token ?req) = Some token"
    using assms(1) by (simp add: client_request_def Let_def)
  show "the_calls (serve rt sb now net c ?req) =
       [DbCall \<lparr>q_table = Some (JStr table), q_action = Insert (JObj [(''user_id'', userId)]),
                q_filters = [], q_returning = False\<rparr>]"
    by (simp add: serve_authenticated [OF m t assms(2)] the_calls_def)
      (simp add: client_request_def route_def db_operation_def forward_query_def Let_def
        with_user_id_def from_table_def)
qed

text \<open>
  C10, witness: \<^verbatim>\<open>user-42\<close> inserts \<^verbatim>\<open>{ title: 'x' }\<close> into \<^verbatim>\<open>todos\<close> through the
  wrapper.
\<close>

theorem wrapper_insert_forwards_owner_only_witness:
  "the_calls (serve example_runtime example_client 1000 keys_endpoint held_keys
      (client_request example_builder ''token-42'' ''insert''
         [JObj [(''title'', JStr ''x'')]] ''todos'')) =
     [DbCall \<lparr>q_table = Some (JStr ''todos''),
              q_action = Insert (JObj [(''user_id'', JStr ''user-42'')]),
              q_filters = [], q_returning = False\<rparr>]"
proof -
  have n: "''token-42'' \<noteq> []"
    by simp
  show ?thesis
    using wrapper_insert_forwards_owner_only [OF n example_validates refl] by simp
qed

end
